theory Spec2Isabelle
  imports Complex_Main "HOL-Library.Sublist" "HOL-Library.Word"
begin

section \<open>JavaScript values used by the program\<close>

text \<open>
  A JavaScript string is modelled as a \<^typ>\<open>string\<close>; one \<^typ>\<open>char\<close> stands for one
  code unit below 256. A JavaScript number is \<open>NaN\<close>, an infinity or a finite value. Finite
  values are kept exact: rounding to binary64 and the sign of zero are not modelled, the
  overflow of a literal to an infinity is.
\<close>

datatype jsnum = NaN | PosInf | NegInf | Fin rat

datatype jsval = JSUndefined | JSNull | JSNumber jsnum

text \<open>The loose comparison \<open>v != null\<close>: false exactly for \<open>null\<close> and \<open>undefined\<close>.\<close>

fun loose_neq_null :: "jsval \<Rightarrow> bool" where
  "loose_neq_null JSUndefined = False"
| "loose_neq_null JSNull = False"
| "loose_neq_null (JSNumber n) = True"

fun isFinite :: "jsnum \<Rightarrow> bool" where
  "isFinite (Fin q) = True"
| "isFinite NaN = False"
| "isFinite PosInf = False"
| "isFinite NegInf = False"

subsection \<open>\<open>String.prototype.trim\<close> and \<open>String.prototype.split\<close>\<close>

definition is_white :: "char \<Rightarrow> bool" where
  "is_white c \<longleftrightarrow> c \<in> set [CHR 0x09, CHR 0x0A, CHR 0x0B, CHR 0x0C, CHR 0x0D, CHR 0x20, CHR 0xA0]"

definition trim :: "string \<Rightarrow> string" where
  "trim s = rev (dropWhile is_white (rev (dropWhile is_white s)))"

text \<open>\<open>s.split(sep)\<close> for a one-character separator; \<open>cur\<close> holds the current piece, reversed.\<close>

fun split_from :: "char \<Rightarrow> string \<Rightarrow> string \<Rightarrow> string list" where
  "split_from sep cur [] = [rev cur]"
| "split_from sep cur (c # cs) =
     (if c = sep then rev cur # split_from sep [] cs else split_from sep (c # cur) cs)"

definition split :: "char \<Rightarrow> string \<Rightarrow> string list" where
  "split sep s = split_from sep [] s"

text \<open>\<open>xs.join(sep)\<close> on an array of strings.\<close>

fun join :: "string \<Rightarrow> string list \<Rightarrow> string" where
  "join sep [] = []"
| "join sep [x] = x"
| "join sep (x # y # ys) = x @ sep @ join sep (y # ys)"

subsection \<open>\<open>Number(string)\<close>\<close>

definition digit_val :: "char \<Rightarrow> nat option" where
  "digit_val c =
     (let n = (of_char c :: nat) in
      if 48 \<le> n \<and> n \<le> 57 then Some (n - 48)
      else if 97 \<le> n \<and> n \<le> 102 then Some (n - 87)
      else if 65 \<le> n \<and> n \<le> 70 then Some (n - 55)
      else None)"

fun digits_val :: "nat \<Rightarrow> nat \<Rightarrow> string \<Rightarrow> nat option" where
  "digits_val b acc [] = Some acc"
| "digits_val b acc (c # cs) =
     (case digit_val c of
        None \<Rightarrow> None
      | Some d \<Rightarrow> if d < b then digits_val b (acc * b + d) cs else None)"

text \<open>A non-empty run of digits of the base, read as a number.\<close>

definition numeral_val :: "nat \<Rightarrow> string \<Rightarrow> nat option" where
  "numeral_val b s = (if s = [] then None else digits_val b 0 s)"

text \<open>
  A finite literal whose magnitude reaches \<open>2^1024 - 2^970\<close> rounds to an infinity in
  binary64.
\<close>

definition round_overflow :: "rat \<Rightarrow> jsnum" where
  "round_overflow q = (if 2 ^ 1024 - 2 ^ 970 \<le> q then PosInf else Fin q)"

text \<open>The mantissa \<open>digits\<close>, \<open>digits.\<close>, \<open>digits.digits\<close> or \<open>.digits\<close>.\<close>

definition mantissa_val :: "string \<Rightarrow> rat option" where
  "mantissa_val m =
     (let ip = takeWhile (\<lambda>c. c \<noteq> CHR ''.'') m;
          rest = dropWhile (\<lambda>c. c \<noteq> CHR ''.'') m
      in case rest of
           [] \<Rightarrow> map_option of_nat (numeral_val 10 ip)
         | dot # fp \<Rightarrow>
             if ip = [] \<and> fp = [] then None
             else (case (digits_val 10 0 ip, digits_val 10 0 fp) of
                     (Some i, Some f) \<Rightarrow> Some (of_nat i + of_nat f / 10 ^ length fp)
                   | _ \<Rightarrow> None))"

text \<open>The exponent part after \<open>e\<close> or \<open>E\<close>: an optional sign and digits.\<close>

definition exponent_val :: "string \<Rightarrow> int option" where
  "exponent_val e =
     (case e of
        [] \<Rightarrow> None
      | c # cs \<Rightarrow>
          if c = CHR ''-'' then map_option (\<lambda>n. - int n) (numeral_val 10 cs)
          else if c = CHR ''+'' then map_option int (numeral_val 10 cs)
          else map_option int (numeral_val 10 e))"

definition scale10 :: "rat \<Rightarrow> int \<Rightarrow> rat" where
  "scale10 q k = (if 0 \<le> k then q * 10 ^ nat k else q / 10 ^ nat (- k))"

definition is_e :: "char \<Rightarrow> bool" where
  "is_e c \<longleftrightarrow> c = CHR ''e'' \<or> c = CHR ''E''"

definition unsigned_decimal :: "string \<Rightarrow> jsnum" where
  "unsigned_decimal s =
     (if s = ''Infinity'' then PosInf
      else
        (let m = takeWhile (\<lambda>c. \<not> is_e c) s;
             rest = dropWhile (\<lambda>c. \<not> is_e c) s
         in case mantissa_val m of
              None \<Rightarrow> NaN
            | Some q \<Rightarrow>
                (case rest of
                   [] \<Rightarrow> round_overflow q
                 | e # ex \<Rightarrow>
                     (case exponent_val ex of
                        None \<Rightarrow> NaN
                      | Some k \<Rightarrow> round_overflow (scale10 q k)))))"

fun negate :: "jsnum \<Rightarrow> jsnum" where
  "negate NaN = NaN"
| "negate PosInf = NegInf"
| "negate NegInf = PosInf"
| "negate (Fin q) = Fin (- q)"

definition based :: "nat \<Rightarrow> string \<Rightarrow> jsnum" where
  "based b s = (case numeral_val b s of None \<Rightarrow> NaN | Some n \<Rightarrow> round_overflow (of_nat n))"

text \<open>
  \<open>Number(s)\<close> for a string: white space is trimmed, the empty string is \<open>0\<close>, then a
  binary, octal or hexadecimal integer or a signed decimal literal is read; anything else
  is \<open>NaN\<close>.
\<close>

definition Number_js :: "string \<Rightarrow> jsnum" where
  "Number_js s =
     (let t = trim s in
      if t = [] then Fin 0
      else if take 2 t = ''0x'' \<or> take 2 t = ''0X'' then based 16 (drop 2 t)
      else if take 2 t = ''0o'' \<or> take 2 t = ''0O'' then based 8 (drop 2 t)
      else if take 2 t = ''0b'' \<or> take 2 t = ''0B'' then based 2 (drop 2 t)
      else if hd t = CHR ''-'' then negate (unsigned_decimal (tl t))
      else if hd t = CHR ''+'' then unsigned_decimal (tl t)
      else unsigned_decimal t)"


subsection \<open>\<open>Number.prototype.toString\<close> on a line number\<close>

text \<open>
  A line number is a non-negative integer below \<open>2^53\<close>: the diff parser reads it from
  the digits of a hunk header and counts up from there. These are the numbers that
  JavaScript holds exactly and prints digit by digit; a larger number it rounds, and from
  \<open>10^21\<close> on prints in exponent form, so the type leaves them out.
\<close>

type_synonym line_number = "53 word"

fun decimal :: "nat \<Rightarrow> string" where
  "decimal n =
     (if n < 10 then [char_of (48 + n)] else decimal (n div 10) @ [char_of (48 + n mod 10)])"

declare decimal.simps [simp del]

definition toString :: "line_number \<Rightarrow> string" where
  "toString n = decimal (unat n)"

text \<open>A string-or-undefined value inside a template literal.\<close>

fun interpolate :: "string option \<Rightarrow> string" where
  "interpolate None = ''undefined''"
| "interpolate (Some s) = s"

section \<open>The data of one run\<close>

text \<open>
  The parts of parse-diff's \<open>File\<close>, \<open>Chunk\<close> and \<open>Change\<close> that the program reads. A
  change is tagged \<open>add\<close>, \<open>del\<close> or \<open>normal\<close>; it holds its text and the line numbers
  \<open>ln\<close> (added and deleted lines) or \<open>ln1\<close> and \<open>ln2\<close> (context lines, left and right
  side). A line number may be absent. The parser that fills them in is a library and not
  among the sources.
\<close>

datatype Change =
    AddChange string "line_number option"
  | DelChange string "line_number option"
  | NormalChange string "line_number option" "line_number option"

record Chunk =
  content :: string
  changes :: "Change list"

record File =
  to :: "string option"
  chunks :: "Chunk list"

record PRDetails =
  owner :: string
  repo :: string
  pull_number :: int
  title :: string
  description :: string
  commit_id :: string

text \<open>One element of the model's \<open>reviews\<close> array, and one review comment.\<close>

record Finding =
  lineNumber :: string
  reviewComment :: string

record Comment =
  body :: string
  path :: "string option"
  line :: jsnum

text \<open>
  What \<open>getAIResponse\<close> returns: its declared type is an array of findings or \<open>null\<close>;
  reading a property that is not there gives \<open>undefined\<close>.
\<close>

datatype ai_response = Null | Undefined | Reviews "Finding list"

text \<open>
  The value of \<open>JSON.parse\<close>, seen through that type: the JSON text \<open>null\<close>, or a value
  whose \<open>reviews\<close> property reads as the given response.
\<close>

datatype parsed = JsonNull | JsonValue ai_response

datatype error = TypeError | SyntaxError | RequestError nat

text \<open>\<open>error.status\<close>: only a failed request carries one.\<close>

fun status :: "error \<Rightarrow> nat option" where
  "status (RequestError n) = Some n"
| "status TypeError = None"
| "status SyntaxError = None"

subsection \<open>The chat completion endpoint\<close>

record ChatMessage =
  role :: string
  content :: string

text \<open>The request; the fixed output schema sent along with it is a constant and left out.\<close>

record ChatRequest =
  model :: string
  temperature :: int
  max_tokens :: int
  top_p :: int
  frequency_penalty :: int
  presence_penalty :: int
  messages :: "ChatMessage list"

record ChoiceMessage =
  content :: "string option"

record ChatChoice =
  finish_reason :: string
  message :: "ChoiceMessage option"

record ChatCompletion =
  choices :: "ChatChoice list"

subsection \<open>The hosting platform\<close>

record EventData =
  repository_owner_login :: string
  repository_name :: string
  number :: int
  action :: "string option"

record PullData =
  pull_title :: "string option"
  pull_body :: "string option"

record ReviewRequest =
  review_owner :: string
  review_repo :: string
  review_pull_number :: int
  review_commit_id :: string
  review_comments :: "Comment list"
  review_event :: string

subsection \<open>Console output and calls to collaborators, in the order they happen\<close>

datatype event =
    CallPullsGet string string int
  | CallListCommits string string int
  | CallPullsGetDiff string string int
  | CallChatCreate ChatRequest
  | CallCreateReview ReviewRequest
  | LogMaxContext
  | ErrorAI error "string option"
  | LogCommenting jsnum "string option"
  | ErrorLineNotFound jsnum "string option"
  | ErrorCreateReview error
  | ErrorInvalidPositions
  | LogUnsupportedEvent "string option"
  | LogNoDiff
  | LogNoComments
  | ErrorMain error
  | Exit nat

text \<open>
  Everything outside the program: the action's inputs, the event file, the platform, the
  libraries \<open>parse-diff\<close> and \<open>minimatch\<close>, \<open>JSON.parse\<close> and the model. The model answers
  from a state \<open>'w\<close> of its own, so two calls with one prompt may differ.
\<close>

record 'w runtime =
  OPENAI_API_MODEL :: string
  EXTRA_INSTRUCTIONS :: string
  exclude :: string
  GITHUB_EVENT_NAME :: "string option"
  eventData :: "error + EventData"
  pulls_get :: "error + PullData"
  pulls_listCommits :: "error + string list"
  pulls_get_diff :: "error + string option"
  parseDiff :: "string \<Rightarrow> error + File list"
  minimatch :: "string \<Rightarrow> string \<Rightarrow> bool"
  chat_create :: "'w \<Rightarrow> ChatRequest \<Rightarrow> (error + ChatCompletion) \<times> 'w"
  JSON_parse :: "string \<Rightarrow> error + parsed"
  pulls_createReview :: "ReviewRequest \<Rightarrow> error option"

section \<open>The program\<close>

subsection \<open>\<open>createPrompt\<close>\<close>

text \<open>\<open>n ? n.toString() : ""\<close>: an absent line number and the number \<open>0\<close> are falsy.\<close>

fun ln_string :: "line_number option \<Rightarrow> string" where
  "ln_string None = []"
| "ln_string (Some n) = (if n = 0 then [] else toString n)"

text \<open>The body of the \<open>map\<close> callback: the line number, a blank, the text of the line.\<close>

fun annotate :: "Change \<Rightarrow> string" where
  "annotate (AddChange text l) = ln_string l @ '' '' @ text"
| "annotate (DelChange text l) = ln_string l @ '' '' @ text"
| "annotate (NormalChange text l1 l2) = ln_string l1 @ '' '' @ text"

definition diffContent :: "Chunk \<Rightarrow> string" where
  "diffContent chunk = join ''\<newline>'' (map annotate (changes chunk))"

definition fixed_policy :: string where
  \<open>fixed_policy =
     ''Your task is to review pull requests. Instructions:\<newline>'' @
     ''- Do not give positive comments or compliments.\<newline>'' @
     ''- Provide comments and suggestions ONLY if there is something to improve, otherwise "reviews" should be an empty array.\<newline>'' @
     ''- Write the comment in GitHub Markdown format.\<newline>'' @
     ''- Use the given description only for the overall context and only comment the code.\<newline>'' @
     ''- IMPORTANT: NEVER suggest adding comments to the code.\<newline>'' @
     ''- never comment on file formatting and linting issues\<newline>'' @
     ''- Always propose a code solution to the issue.\<newline>'' @
     ''- Don't check package imports.\<newline>'' @
     ''- Don't suggest adding comments.\<newline>''\<close>

text \<open>What follows the extra instructions in the template.\<close>

definition review_request :: "File \<Rightarrow> Chunk \<Rightarrow> PRDetails \<Rightarrow> string" where
  \<open>review_request file chunk prDetails =
     ''\<newline>\<newline>Review the following code diff in the file "'' @ interpolate (to file) @
     ''" and take the pull request title and description into account when writing the response.\<newline>'' @
     ''  \<newline>'' @
     ''Pull request title: '' @ title prDetails @ ''\<newline>'' @
     ''Pull request description:\<newline>\<newline>'' @
     ''---\<newline>'' @
     description prDetails @ ''\<newline>'' @
     ''---\<newline>\<newline>'' @
     ''Git diff to review:\<newline>\<newline>'' @
     ''```diff\<newline>'' @
     Chunk.content chunk @ ''\<newline>'' @
     diffContent chunk @ ''\<newline>'' @
     ''```\<newline>''\<close>

definition createPrompt :: "'w runtime \<Rightarrow> File \<Rightarrow> Chunk \<Rightarrow> PRDetails \<Rightarrow> string" where
  "createPrompt rt file chunk prDetails =
     fixed_policy @ EXTRA_INSTRUCTIONS rt @ review_request file chunk prDetails"

subsection \<open>\<open>getAIResponse\<close>\<close>

definition queryConfig :: "'w runtime \<Rightarrow> ChatMessage list \<Rightarrow> ChatRequest" where
  "queryConfig rt ms =
     \<lparr>model = OPENAI_API_MODEL rt, temperature = 0, max_tokens = 1500, top_p = 1,
      frequency_penalty = 0, presence_penalty = 0, messages = ms\<rparr>"

text \<open>The request of \<open>getAIResponse\<close>: the prompt as the one system message.\<close>

definition system_request :: "'w runtime \<Rightarrow> string \<Rightarrow> ChatRequest" where
  "system_request rt prompt = queryConfig rt [\<lparr>role = ''system'', content = prompt\<rparr>]"

text \<open>\<open>choices[0].message?.content\<close>: a \<open>TypeError\<close> when there is no first choice.\<close>

fun first_content :: "ChatChoice list \<Rightarrow> error + string option" where
  "first_content [] = Inl TypeError"
| "first_content (choice # rest) =
     Inr (case message choice of None \<Rightarrow> None | Some m \<Rightarrow> ChoiceMessage.content m)"

text \<open>\<open>content?.trim() || "{}"\<close>: \<open>undefined\<close>, \<open>null\<close> and the empty string are falsy.\<close>

fun or_empty_object :: "string option \<Rightarrow> string" where
  "or_empty_object None = ''{}''"
| "or_empty_object (Some c) = (if trim c = [] then ''{}'' else trim c)"

text \<open>\<open>JSON.parse(res).reviews\<close>: reading a property of \<open>null\<close> is a \<open>TypeError\<close>.\<close>

definition parse_reviews :: "'w runtime \<Rightarrow> string \<Rightarrow> error + ai_response" where
  "parse_reviews rt res =
     (case JSON_parse rt res of
        Inl e \<Rightarrow> Inl e
      | Inr JsonNull \<Rightarrow> Inl TypeError
      | Inr (JsonValue r) \<Rightarrow> Inr r)"

text \<open>
  The statements of the \<open>try\<close> block after the request has returned: the value returned or
  the exception thrown, and what was logged.
\<close>

definition after_response ::
    "'w runtime \<Rightarrow> ChatCompletion \<Rightarrow> (error + ai_response) \<times> event list" where
  "after_response rt response =
     (case choices response of
        [] \<Rightarrow> (Inl TypeError, [])
      | choice # rest \<Rightarrow>
          if finish_reason choice = ''length'' then (Inr Null, [LogMaxContext])
          else
            (case first_content (choices response) of
               Inl e \<Rightarrow> (Inl e, [])
             | Inr c \<Rightarrow> (parse_reviews rt (or_empty_object c), [])))"

text \<open>
  The \<open>catch\<close> block: it logs the error and \<open>response?.choices[0].message?.content\<close>, then
  returns \<open>null\<close>. With a response that has no choice the logged expression throws and the
  exception leaves \<open>getAIResponse\<close>.
\<close>

definition handler ::
    "error \<Rightarrow> ChatCompletion option \<Rightarrow> (error + ai_response) \<times> event list" where
  "handler e response =
     (case response of
        None \<Rightarrow> (Inr Null, [ErrorAI e None])
      | Some r \<Rightarrow>
          (case first_content (choices r) of
             Inl e' \<Rightarrow> (Inl e', [])
           | Inr c \<Rightarrow> (Inr Null, [ErrorAI e c])))"

definition getAIResponse ::
    "'w runtime \<Rightarrow> string \<Rightarrow> 'w \<Rightarrow> (error + ai_response) \<times> event list \<times> 'w" where
  "getAIResponse rt prompt w =
     (let request = system_request rt prompt
      in case chat_create rt w request of
           (Inl e, w') \<Rightarrow>
             (case handler e None of (r, logged) \<Rightarrow> (r, CallChatCreate request # logged, w'))
         | (Inr response, w') \<Rightarrow>
             (case after_response rt response of
                (Inr r, logged) \<Rightarrow> (Inr r, CallChatCreate request # logged, w')
              | (Inl e, logged) \<Rightarrow>
                  (case handler e (Some response) of
                     (r, logged') \<Rightarrow> (r, CallChatCreate request # logged @ logged', w'))))"

subsection \<open>\<open>createComment\<close>\<close>

text \<open>One turn of the loop: the comments pushed and the lines written to the console.\<close>

definition comment_step :: "File \<Rightarrow> Finding \<Rightarrow> Comment list \<times> event list" where
  "comment_step file aiResponse =
     (let lineNumber = Number_js (lineNumber aiResponse)
      in if loose_neq_null (JSNumber lineNumber)
         then ([\<lparr>body = reviewComment aiResponse, path = to file, line = lineNumber\<rparr>],
               [LogCommenting lineNumber (to file)])
         else ([], [ErrorLineNotFound lineNumber (to file)]))"

fun createComment_loop ::
    "File \<Rightarrow> Finding list \<Rightarrow> Comment list \<times> event list \<Rightarrow> Comment list \<times> event list" where
  "createComment_loop file [] (comments, logged) = (comments, logged)"
| "createComment_loop file (aiResponse # rest) (comments, logged) =
     (case comment_step file aiResponse of
        (new, lines) \<Rightarrow> createComment_loop file rest (comments @ new, logged @ lines))"

definition createComment :: "File \<Rightarrow> Chunk \<Rightarrow> Finding list \<Rightarrow> Comment list \<times> event list" where
  "createComment file chunk aiResponses = createComment_loop file aiResponses ([], [])"

subsection \<open>\<open>analyzeCode\<close>\<close>

text \<open>
  The state of the two loops: the comments collected, the trace and the state of the model.
  An exception that leaves \<open>getAIResponse\<close> ends the loops. An array is truthy, also an
  empty one; \<open>null\<close> and \<open>undefined\<close> are not.
\<close>

type_synonym 'w progress = "Comment list \<times> event list \<times> 'w"

type_synonym 'w analysis = "(error + Comment list) \<times> event list \<times> 'w"

fun chunk_loop ::
    "'w runtime \<Rightarrow> PRDetails \<Rightarrow> File \<Rightarrow> Chunk list \<Rightarrow> 'w progress \<Rightarrow> 'w analysis" where
  "chunk_loop rt prDetails file [] (comments, trace, w) = (Inr comments, trace, w)"
| "chunk_loop rt prDetails file (chunk # rest) (comments, trace, w) =
     (case getAIResponse rt (createPrompt rt file chunk prDetails) w of
        (Inl e, logged, w') \<Rightarrow> (Inl e, trace @ logged, w')
      | (Inr (Reviews aiResponse), logged, w') \<Rightarrow>
          (case createComment file chunk aiResponse of
             (newComments, lines) \<Rightarrow>
               chunk_loop rt prDetails file rest
                 (comments @ newComments, trace @ logged @ lines, w'))
      | (Inr Null, logged, w') \<Rightarrow> chunk_loop rt prDetails file rest (comments, trace @ logged, w')
      | (Inr Undefined, logged, w') \<Rightarrow>
          chunk_loop rt prDetails file rest (comments, trace @ logged, w'))"

fun file_loop ::
    "'w runtime \<Rightarrow> PRDetails \<Rightarrow> File list \<Rightarrow> 'w progress \<Rightarrow> 'w analysis" where
  "file_loop rt prDetails [] (comments, trace, w) = (Inr comments, trace, w)"
| "file_loop rt prDetails (file # rest) (comments, trace, w) =
     (if to file = Some ''/dev/null'' then file_loop rt prDetails rest (comments, trace, w)
      else
        (case chunk_loop rt prDetails file (chunks file) (comments, trace, w) of
           (Inl e, trace', w') \<Rightarrow> (Inl e, trace', w')
         | (Inr comments', trace', w') \<Rightarrow> file_loop rt prDetails rest (comments', trace', w')))"

definition analyzeCode :: "'w runtime \<Rightarrow> File list \<Rightarrow> PRDetails \<Rightarrow> 'w \<Rightarrow> 'w analysis" where
  "analyzeCode rt parsedDiff prDetails w = file_loop rt prDetails parsedDiff ([], [], w)"

subsection \<open>\<open>getPRDetails\<close>, \<open>getDiff\<close> and \<open>createReviewComment\<close>\<close>

text \<open>\<open>s ?? ""\<close>\<close>

fun or_empty :: "string option \<Rightarrow> string" where
  "or_empty None = []"
| "or_empty (Some s) = s"

text \<open>
  \<open>getPRDetails\<close>: reading the event file, either request or the commit list being empty
  (the \<open>sha\<close> of \<open>undefined\<close>) throws.
\<close>

definition getPRDetails :: "'w runtime \<Rightarrow> (error + PRDetails) \<times> event list" where
  "getPRDetails rt =
     (case eventData rt of
        Inl e \<Rightarrow> (Inl e, [])
      | Inr ev \<Rightarrow>
          (let get = CallPullsGet (repository_owner_login ev) (repository_name ev) (number ev);
               list = CallListCommits (repository_owner_login ev) (repository_name ev) (number ev)
           in case pulls_get rt of
                Inl e \<Rightarrow> (Inl e, [get])
              | Inr prResponse \<Rightarrow>
                  (case pulls_listCommits rt of
                     Inl e \<Rightarrow> (Inl e, [get, list])
                   | Inr commits \<Rightarrow>
                       if commits = [] then (Inl TypeError, [get, list])
                       else
                         (Inr \<lparr>owner = repository_owner_login ev, repo = repository_name ev,
                               pull_number = number ev,
                               title = or_empty (pull_title prResponse),
                               description = or_empty (pull_body prResponse),
                               commit_id = last commits\<rparr>,
                          [get, list]))))"

definition getDiff ::
    "'w runtime \<Rightarrow> string \<Rightarrow> string \<Rightarrow> int \<Rightarrow> (error + string option) \<times> event list" where
  "getDiff rt the_owner the_repo the_pull_number =
     (pulls_get_diff rt, [CallPullsGetDiff the_owner the_repo the_pull_number])"

definition createReviewComment ::
    "'w runtime \<Rightarrow> string \<Rightarrow> string \<Rightarrow> int \<Rightarrow> string \<Rightarrow> Comment list \<Rightarrow> event list" where
  "createReviewComment rt the_owner the_repo the_pull_number the_commit_id comments =
     (let request =
            \<lparr>review_owner = the_owner, review_repo = the_repo,
             review_pull_number = the_pull_number,
             review_commit_id = the_commit_id, review_comments = comments,
             review_event = ''COMMENT''\<rparr>
      in case pulls_createReview rt request of
           None \<Rightarrow> [CallCreateReview request]
         | Some e \<Rightarrow>
             [CallCreateReview request, ErrorCreateReview e] @
             (if status e = Some 422 then [ErrorInvalidPositions] else []))"

subsection \<open>\<open>main\<close>\<close>

definition excludePatterns :: "'w runtime \<Rightarrow> string list" where
  "excludePatterns rt = filter (\<lambda>s. length s > 0) (map trim (split CHR '','' (exclude rt)))"

definition filteredDiff :: "'w runtime \<Rightarrow> File list \<Rightarrow> File list" where
  "filteredDiff rt parsedDiff =
     filter (\<lambda>file. \<not> list_ex (\<lambda>pattern. minimatch rt (or_empty (to file)) pattern)
                                (excludePatterns rt))
            parsedDiff"

text \<open>\<open>!diff\<close>: \<open>null\<close> and the empty string are falsy.\<close>

fun no_diff :: "string option \<Rightarrow> bool" where
  "no_diff None = True"
| "no_diff (Some d) = (d = [])"

type_synonym 'w finished = "(error + unit) \<times> event list \<times> 'w"

text \<open>The statements of \<open>main\<close> from \<open>parseDiff\<close> on.\<close>

definition review :: "'w runtime \<Rightarrow> PRDetails \<Rightarrow> string \<Rightarrow> 'w \<Rightarrow> 'w finished" where
  "review rt prDetails diff w =
     (case parseDiff rt diff of
        Inl e \<Rightarrow> (Inl e, [], w)
      | Inr parsedDiff \<Rightarrow>
          (case analyzeCode rt (filteredDiff rt parsedDiff) prDetails w of
             (Inl e, trace, w') \<Rightarrow> (Inl e, trace, w')
           | (Inr comments, trace, w') \<Rightarrow>
               if length comments > 0
               then (Inr (),
                     trace @ createReviewComment rt (owner prDetails) (repo prDetails)
                               (pull_number prDetails) (commit_id prDetails) comments,
                     w')
               else (Inr (), trace @ [LogNoComments], w')))"

text \<open>
  \<open>main\<close>. The event file is read a second time after \<open>getPRDetails\<close> has read it; an
  \<open>action\<close> that is not a string is \<open>None\<close>.
\<close>

definition main :: "'w runtime \<Rightarrow> 'w \<Rightarrow> 'w finished" where
  "main rt w =
     (case getPRDetails rt of
        (Inl e, t0) \<Rightarrow> (Inl e, t0, w)
      | (Inr prDetails, t0) \<Rightarrow>
          (case eventData rt of
             Inl e \<Rightarrow> (Inl e, t0, w)
           | Inr ev \<Rightarrow>
               if action ev = Some ''opened'' \<or> action ev = Some ''synchronize''
               then
                 (case getDiff rt (owner prDetails) (repo prDetails) (pull_number prDetails) of
                    (Inl e, t1) \<Rightarrow> (Inl e, t0 @ t1, w)
                  | (Inr diff, t1) \<Rightarrow>
                      if no_diff diff then (Inr (), t0 @ t1 @ [LogNoDiff], w)
                      else
                        (case review rt prDetails (or_empty diff) w of
                           (r, t2, w') \<Rightarrow> (r, t0 @ t1 @ t2, w')))
               else (Inr (), t0 @ [LogUnsupportedEvent (GITHUB_EVENT_NAME rt)], w)))"

text \<open>\<open>main().catch(...)\<close>: a rejection is logged and the process exits with status 1.\<close>

definition run :: "'w runtime \<Rightarrow> 'w \<Rightarrow> event list \<times> 'w" where
  "run rt w =
     (case main rt w of
        (Inl e, trace, w') \<Rightarrow> (trace @ [ErrorMain e, Exit 1], w')
      | (Inr u, trace, w') \<Rightarrow> (trace, w'))"

subsection \<open>The second \<open>createPrompt\<close>\<close>

text \<open>
  The repository holds a second version of the program whose \<open>createPrompt\<close> builds a
  system message and a user message and whose \<open>getAIResponse\<close> sends them as they are; the
  rest of that version is the text of the first. The dash of its system message is written
  as the three bytes of its UTF-8 encoding.
\<close>

definition system_content :: string where
  \<open>system_content =
     ''You are an expert AI code reviewer specializing in Java, Spring, and SQL. You will be provided with a pull request (PR) title, PR description, and the Git diff. Your task is to review the changes in the Git diff and identify potential issues, while demonstrating your in-depth knowledge of Spring.\<newline>'' @
          ''\<newline>'' @
          ''- Focus exclusively on areas in the code where there might be a problem, but avoid mentioning issues that a compiler would catch, such as incorrect function calls.\<newline>'' @
          ''- If the code is satisfactory, return an empty array'' @ [CHR 0xE2, CHR 0x80, CHR 0x94] @ ''do not include any positive comments or compliments.\<newline>'' @
          ''- The PR title and description are for context only and should not be commented on.\<newline>'' @
          ''- Do not comment on file formatting, linting issues, suggest adding comments, or issues like null values in `getReferenceById` which never returns null but throws an exception.\<newline>'' @
          ''- All comments should be written in GitHub Markdown format.\<newline>'' @
          ''\<newline>'' @
          ''# Output Format\<newline>'' @
          ''\<newline>'' @
          ''Return output in JSON format with an array containing comment objects. Each comment object should include:\<newline>'' @
          ''- `lineNumber`: the line number of the issue.\<newline>'' @
          ''- `reviewComment`: details of the concern in GitHub Markdown format.\<newline>'' @
          ''\<newline>'' @
          ''# Examples\<newline>'' @
          ''\<newline>'' @
          ''**Input:**\<newline>'' @
          ''- PR Title: "Fix login retry logic"\<newline>'' @
          ''- PR Description: "Corrects the retry logic to prevent endless loops."\<newline>'' @
          ''- Git Diff:\<newline>'' @
          ''  ```java\<newline>'' @
          ''  @@ -10,5 +10,7 @@\<newline>'' @
          ''  while (currentTry > MAX_TRIES) {\<newline>'' @
          ''      // retry logic\<newline>'' @
          ''  }\<newline>'' @
          ''  ```\<newline>'' @
          ''\<newline>'' @
          ''**Output:**\<newline>'' @
          ''```\<newline>'' @
          ''[\<newline>'' @
          ''  {\<newline>'' @
          ''    "lineNumber": 2,\<newline>'' @
          ''    "reviewComment": "The condition `currentTry > MAX_TRIES` is incorrect for the retry logic. It should be `currentTry < MAX_TRIES` to limit the number of tries."\<newline>'' @
          ''  }\<newline>'' @
          '']\<newline>'' @
          ''```\<newline>'' @
          ''\<newline>'' @
          ''(Note: Real examples may vary in length and complexity. Use placeholders to represent the context and structure of comments.)\<newline>'' @
          ''`''\<close>
definition userMessage :: "Chunk \<Rightarrow> PRDetails \<Rightarrow> string" where
  \<open>userMessage chunk prDetails =
     ''Please review my PR:\<newline>\<newline>'' @
     ''The title is:\<newline>'' @
     title prDetails @ ''\<newline>\<newline>'' @
     ''The description is: \<newline>'' @
     ''---\<newline>'' @
     description prDetails @ ''\<newline>'' @
     ''---\<newline>\<newline>'' @
     ''The git diff is:\<newline>'' @
     ''```diff\<newline>'' @
     Chunk.content chunk @ ''\<newline>'' @
     diffContent chunk @ ''\<newline>'' @
     ''```''\<close>

definition createPrompt_messages ::
    "'w runtime \<Rightarrow> File \<Rightarrow> Chunk \<Rightarrow> PRDetails \<Rightarrow> ChatMessage list" where
  "createPrompt_messages rt file chunk prDetails =
     [\<lparr>role = ''system'', content = system_content\<rparr>,
      \<lparr>role = ''user'', content = userMessage chunk prDetails\<rparr>]"

section \<open>The glob matcher\<close>

text \<open>
  Modelled from the spec: the matcher \<open>minimatch\<close> is a library that is not among the
  sources; the program receives it through \<^const>\<open>minimatch\<close>. The specification says
  that matching uses shell-glob semantics. What follows is that matching, which is also
  what the library does with the options the program passes (none), on the patterns made
  of path segments that are \<open>**\<close> or consist of ordinary characters, \<open>*\<close> and \<open>?\<close>.
  A path and a pattern are split at \<open>/\<close> and matched segment by segment: \<open>*\<close> and \<open>?\<close>
  never match a \<open>/\<close>, a segment that starts with \<open>*\<close> or \<open>?\<close> does not match a name that
  starts with a dot, and \<open>**\<close> stands for any number of segments that do not start with a
  dot. Other patterns and paths get no answer.
\<close>

definition glob_special :: "char \<Rightarrow> bool" where
  "glob_special c \<longleftrightarrow> c \<in> set (''[]{}()!+@#|,^'' @ [CHR 0x5C])"

definition is_magic :: "char \<Rightarrow> bool" where
  "is_magic c \<longleftrightarrow> c = CHR ''*'' \<or> c = CHR ''?''"

text \<open>A pattern segment against a name, character by character.\<close>

fun wild :: "string \<Rightarrow> string \<Rightarrow> bool" where
  "wild [] s = (s = [])"
| "wild (p # ps) [] = (p = CHR ''*'' \<and> wild ps [])"
| "wild (p # ps) (c # cs) =
     (if p = CHR ''*'' then wild ps (c # cs) \<or> wild (p # ps) cs
      else (p = CHR ''?'' \<or> p = c) \<and> wild ps cs)"

definition segment_match :: "string \<Rightarrow> string \<Rightarrow> bool" where
  "segment_match p f =
     (if list_ex is_magic p
      then f \<noteq> [] \<and> \<not> (is_magic (hd p) \<and> hd f = CHR ''.'') \<and> wild p f
      else f = p)"

fun matchOne :: "string list \<Rightarrow> string list \<Rightarrow> bool" where
  "matchOne fs [] = (fs = [])"
| "matchOne [] (p # ps) = False"
| "matchOne (f # fs) (p # ps) =
     (if p = ''**''
      then matchOne (f # fs) ps \<or> (hd f \<noteq> CHR ''.'' \<and> matchOne fs (p # ps))
      else segment_match p f \<and> matchOne fs ps)"

text \<open>The paths and the patterns that are covered.\<close>

definition plain_segment :: "string \<Rightarrow> bool" where
  "plain_segment f \<longleftrightarrow>
     f \<noteq> [] \<and> f \<noteq> ''.'' \<and> f \<noteq> ''..'' \<and> \<not> list_ex glob_special f \<and> \<not> list_ex is_magic f"

definition pattern_segment :: "string \<Rightarrow> bool" where
  "pattern_segment p \<longleftrightarrow>
     p \<noteq> [] \<and> p \<noteq> ''.'' \<and> p \<noteq> ''..'' \<and> \<not> list_ex glob_special p \<and>
     (p = ''**'' \<or> \<not> sublist ''**'' p)"

definition covered :: "string \<Rightarrow> string \<Rightarrow> bool" where
  "covered name pattern \<longleftrightarrow>
     list_all plain_segment (split CHR ''/'' name) \<and>
     list_all pattern_segment (split CHR ''/'' pattern) \<and>
     last (split CHR ''/'' pattern) \<noteq> ''**''"

definition minimatch_glob :: "string \<Rightarrow> string \<Rightarrow> bool option" where
  "minimatch_glob name pattern =
     (if covered name pattern
      then Some (matchOne (split CHR ''/'' name) (split CHR ''/'' pattern))
      else None)"

text \<open>
  The matcher handed to the program in the examples; where the matching above gives no
  answer it says no match.
\<close>

definition glob_matches :: "string \<Rightarrow> string \<Rightarrow> bool" where
  "glob_matches name pattern \<longleftrightarrow> minimatch_glob name pattern = Some True"

section \<open>Reading a trace\<close>

definition chat_requests :: "event list \<Rightarrow> ChatRequest list" where
  "chat_requests trace =
     concat (map (\<lambda>e. case e of CallChatCreate request \<Rightarrow> [request] | _ \<Rightarrow> []) trace)"

definition review_requests :: "event list \<Rightarrow> ReviewRequest list" where
  "review_requests trace =
     concat (map (\<lambda>e. case e of CallCreateReview request \<Rightarrow> [request] | _ \<Rightarrow> []) trace)"

definition diff_fetches :: "event list \<Rightarrow> nat" where
  "diff_fetches trace =
     length (filter (\<lambda>e. case e of CallPullsGetDiff x y z \<Rightarrow> True | _ \<Rightarrow> False) trace)"

text \<open>The prompts of the requests of a trace: the text of every message, in order.\<close>

definition prompts_sent :: "event list \<Rightarrow> string list" where
  "prompts_sent trace = concat (map (\<lambda>r. map ChatMessage.content (messages r)) (chat_requests trace))"

section \<open>The line numbers of a hunk\<close>






section \<open>The aggregation as the specification words it\<close>

text \<open>
  The specification describes \<open>analyzeCode\<close> as one pass over the pairs of a file and one
  of its chunks, files first, that concatenates what the mapper returns for each pair. The
  pairs of the files that are not deletions, in that order:
\<close>

definition review_pairs :: "File list \<Rightarrow> (File \<times> Chunk) list" where
  "review_pairs files =
     concat (map (\<lambda>file. map (\<lambda>chunk. (file, chunk)) (chunks file))
                 (filter (\<lambda>file. to file \<noteq> Some ''/dev/null'') files))"

text \<open>What one pair contributes for a given answer of the model.\<close>

fun mapper_output :: "File \<Rightarrow> Chunk \<Rightarrow> ai_response \<Rightarrow> Comment list \<times> event list" where
  "mapper_output file chunk (Reviews findings) = createComment file chunk findings"
| "mapper_output file chunk Null = ([], [])"
| "mapper_output file chunk Undefined = ([], [])"

text \<open>The single pass: the output of every pair, in order, unless an exception ends it.\<close>

fun pair_pass ::
    "'w runtime \<Rightarrow> PRDetails \<Rightarrow> (File \<times> Chunk) list \<Rightarrow> 'w \<Rightarrow>
       (error + Comment list list) \<times> event list \<times> 'w" where
  "pair_pass rt prDetails [] w = (Inr [], [], w)"
| "pair_pass rt prDetails ((file, chunk) # rest) w =
     (case getAIResponse rt (createPrompt rt file chunk prDetails) w of
        (Inl e, logged, w') \<Rightarrow> (Inl e, logged, w')
      | (Inr r, logged, w') \<Rightarrow>
          (case pair_pass rt prDetails rest w' of
             (Inl e, trace, w'') \<Rightarrow> (Inl e, logged @ snd (mapper_output file chunk r) @ trace, w'')
           | (Inr outs, trace, w'') \<Rightarrow>
               (Inr (fst (mapper_output file chunk r) # outs),
                logged @ snd (mapper_output file chunk r) @ trace, w'')))"

section \<open>The failures of one model call\<close>

text \<open>
  The specification names three ways in which a call of the model yields no findings: the
  request throws, the answer is cut off at the token budget (the finish reason of the first
  choice is \<open>length\<close>), or \<open>JSON.parse\<close> throws on the content. For an outcome of the
  request that is one of the three, what the program is to write to the console.
\<close>

definition failure_log :: "'w runtime \<Rightarrow> error + ChatCompletion \<Rightarrow> event list option" where
  "failure_log rt outcome =
     (case outcome of
        Inl e \<Rightarrow> Some [ErrorAI e None]
      | Inr response \<Rightarrow>
          (case choices response of
             [] \<Rightarrow> None
           | choice # rest \<Rightarrow>
               if finish_reason choice = ''length'' then Some [LogMaxContext]
               else
                 (let c = (case message choice of
                             None \<Rightarrow> None
                           | Some m \<Rightarrow> ChoiceMessage.content m)
                  in case JSON_parse rt (or_empty_object c) of
                       Inl e \<Rightarrow> Some [ErrorAI e c]
                     | Inr v \<Rightarrow> None)))"

section \<open>A platform and a model for the examples\<close>

text \<open>
  The examples run the program against a model that gives scripted answers, the \<open>n\<close>-th
  answer to the \<open>n\<close>-th request (a failed request once the script is used up), and against
  \<open>JSON.parse\<close> restricted to the four texts the scripted answers contain.
\<close>

definition scripted ::
    "(error + ChatCompletion) list \<Rightarrow> nat \<Rightarrow> ChatRequest \<Rightarrow> (error + ChatCompletion) \<times> nat" where
  "scripted answers n request =
     (if n < length answers then answers ! n else Inl (RequestError 500), Suc n)"

definition answer :: "string \<Rightarrow> string \<Rightarrow> error + ChatCompletion" where
  "answer reason text =
     Inr \<lparr>choices = [\<lparr>finish_reason = reason, message = Some \<lparr>content = Some text\<rparr>\<rparr>]\<rparr>"

definition magic_number_review :: string where
  \<open>magic_number_review =
     ''{"reviews":[{"lineNumber":5,"reviewComment":"Use a named constant instead of a magic number."}]}''\<close>

definition magic_number_finding :: Finding where
  "magic_number_finding =
     \<lparr>lineNumber = ''5'',
      reviewComment = ''Use a named constant instead of a magic number.''\<rparr>"

definition parse_examples :: "string \<Rightarrow> error + parsed" where
  \<open>parse_examples text =
     (if text = ''{}'' then Inr (JsonValue Undefined)
      else if text = ''{"reviews":[]}'' then Inr (JsonValue (Reviews []))
      else if text = magic_number_review then Inr (JsonValue (Reviews [magic_number_finding]))
      else if text = ''null'' then Inr JsonNull
      else Inl SyntaxError)\<close>

definition hunk :: Chunk where
  "hunk = \<lparr>Chunk.content = ''@@ -4,2 +4,3 @@'',
           changes = [NormalChange '' import os'' (Some 4) (Some 4),
                      AddChange ''+x = 1'' (Some 5),
                      NormalChange '' print(x)'' (Some 5) (Some 6)]\<rparr>"

definition a_py :: File where
  "a_py = \<lparr>to = Some ''a.py'', chunks = [hunk]\<rparr>"

definition b_py :: File where
  "b_py = \<lparr>to = Some ''b.py'', chunks = [hunk, hunk]\<rparr>"

definition removed_py :: File where
  "removed_py = \<lparr>to = Some ''/dev/null'', chunks = [hunk]\<rparr>"

definition readme_md :: File where
  "readme_md = \<lparr>to = Some ''readme.md'', chunks = []\<rparr>"

definition docs_readme_md :: File where
  "docs_readme_md = \<lparr>to = Some ''docs/readme.md'', chunks = []\<rparr>"

definition src_app_ts :: File where
  "src_app_ts = \<lparr>to = Some ''src/app.ts'', chunks = [hunk]\<rparr>"

definition pull :: PRDetails where
  "pull = \<lparr>owner = ''octo'', repo = ''demo'', pull_number = 7, title = ''Add x'',
           description = ''Adds a variable.'', commit_id = ''c2''\<rparr>"

definition platform ::
    "string option \<Rightarrow> File list \<Rightarrow> (error + ChatCompletion) list \<Rightarrow> nat runtime" where
  "platform act files answers =
     \<lparr>OPENAI_API_MODEL = ''gpt-4o'',
      EXTRA_INSTRUCTIONS = ''Keep test coverage above 80%.'',
      exclude = '' *.md, ,**/*.lock'',
      GITHUB_EVENT_NAME = Some ''pull_request'',
      eventData = Inr \<lparr>repository_owner_login = ''octo'', repository_name = ''demo'',
                        number = 7, action = act\<rparr>,
      pulls_get = Inr \<lparr>pull_title = Some ''Add x'', pull_body = Some ''Adds a variable.''\<rparr>,
      pulls_listCommits = Inr [''c1'', ''c2''],
      pulls_get_diff = Inr (Some ''diff --git a/a.py b/a.py''),
      parseDiff = (\<lambda>diff. Inr files),
      minimatch = glob_matches,
      chat_create = scripted answers,
      JSON_parse = parse_examples,
      pulls_createReview = (\<lambda>request. None)\<rparr>"

definition cut_then_review :: "(error + ChatCompletion) list" where
  "cut_then_review =
     [answer ''length'' magic_number_review, answer ''stop'' magic_number_review]"

definition failing_answers :: "(error + ChatCompletion) list" where
  "failing_answers =
     [Inl (RequestError 503), answer ''length'' magic_number_review,
      answer ''stop'' ''I found no issues.'', answer ''stop'' '' \<newline>  '']"

section \<open>The comment mapper\<close>

text \<open>
  \<open>Number\<close> always returns a number and no number is loosely equal to \<open>null\<close>, so the
  test of \<open>createComment\<close> holds for every finding: each finding becomes exactly one comment
  and the branch that logs a line as not found is never taken.
\<close>

lemma createComment_loop_step:
  "createComment_loop file findings (comments, logged) =
     (comments @ map (\<lambda>f. \<lparr>body = reviewComment f, path = to file,
                             line = Number_js (lineNumber f)\<rparr>) findings,
      logged @ map (\<lambda>f. LogCommenting (Number_js (lineNumber f)) (to file)) findings)"
  by (induction findings arbitrary: comments logged) (simp_all add: comment_step_def Let_def)

lemma createComment_maps_every_finding:
  "createComment file chunk findings =
     (map (\<lambda>f. \<lparr>body = reviewComment f, path = to file, line = Number_js (lineNumber f)\<rparr>)
          findings,
      map (\<lambda>f. LogCommenting (Number_js (lineNumber f)) (to file)) findings)"
  by (simp add: createComment_def createComment_loop_step)

text \<open>
  Claim C1: a finding whose \<open>lineNumber\<close> does not parse to a finite number produces no
  comment, is logged as dropped, and does not stop the mapping of the other findings.
  The program does not do the first: for the token \<open>not-a-number\<close>, which \<open>Number\<close> reads
  as \<open>NaN\<close>, \<open>createComment\<close> returns a comment whose line is \<open>NaN\<close> and logs that it
  comments on that line.
\<close>

theorem createComment_keeps_unparsable_line:
  "\<not> isFinite (Number_js ''not-a-number'') \<and>
   createComment \<lparr>to = Some ''a.py'', chunks = []\<rparr> \<lparr>Chunk.content = [], changes = []\<rparr>
       [\<lparr>lineNumber = ''not-a-number'', reviewComment = ''x''\<rparr>]
     = ([\<lparr>body = ''x'', path = Some ''a.py'', line = NaN\<rparr>],
        [LogCommenting NaN (Some ''a.py'')])"
  by code_simp

section \<open>The two loops as one pass\<close>

text \<open>
  The loops of \<open>analyzeCode\<close> do what the single pass over the pairs does; the comments
  and the trace collected so far are only extended.
\<close>

lemma pair_pass_append:
  "pair_pass rt pr (xs @ ys) w =
     (case pair_pass rt pr xs w of
        (Inl e, t, w') \<Rightarrow> (Inl e, t, w')
      | (Inr outs, t, w') \<Rightarrow>
          (case pair_pass rt pr ys w' of
             (Inl e, t2, w'') \<Rightarrow> (Inl e, t @ t2, w'')
           | (Inr outs2, t2, w'') \<Rightarrow> (Inr (outs @ outs2), t @ t2, w'')))"
proof (induction xs arbitrary: w)
  case Nil
  show ?case by (simp split: prod.splits sum.splits)
next
  case (Cons x xs)
  obtain f c where x: "x = (f, c)" by (cases x)
  show ?case
    by (simp add: x Cons.IH split: prod.splits sum.splits)
qed

lemma chunk_loop_pair_pass:
  "chunk_loop rt pr file cs (comments, trace, w) =
     (case pair_pass rt pr (map (Pair file) cs) w of
        (Inl e, t, w') \<Rightarrow> (Inl e, trace @ t, w')
      | (Inr outs, t, w') \<Rightarrow> (Inr (comments @ concat outs), trace @ t, w'))"
proof (induction cs arbitrary: comments trace w)
  case Nil
  show ?case by simp
next
  case (Cons c cs)
  show ?case
    by (simp add: Cons.IH split: prod.splits sum.splits ai_response.splits)
qed

lemma review_pairs_Cons:
  "review_pairs (file # files) =
     (if to file = Some ''/dev/null'' then review_pairs files
      else map (Pair file) (chunks file) @ review_pairs files)"
  by (simp add: review_pairs_def)

lemma file_loop_pair_pass:
  "file_loop rt pr files (comments, trace, w) =
     (case pair_pass rt pr (review_pairs files) w of
        (Inl e, t, w') \<Rightarrow> (Inl e, trace @ t, w')
      | (Inr outs, t, w') \<Rightarrow> (Inr (comments @ concat outs), trace @ t, w'))"
proof (induction files arbitrary: comments trace w)
  case Nil
  show ?case by (simp add: review_pairs_def)
next
  case (Cons f fs)
  show ?case
    by (simp add: review_pairs_Cons Cons.IH chunk_loop_pair_pass pair_pass_append
        split: prod.splits sum.splits)
qed

lemma analyzeCode_pair_pass:
  "analyzeCode rt files pr w =
     (case pair_pass rt pr (review_pairs files) w of
        (Inl e, t, w') \<Rightarrow> (Inl e, t, w')
      | (Inr outs, t, w') \<Rightarrow> (Inr (concat outs), t, w'))"
  by (simp add: analyzeCode_def file_loop_pair_pass split: prod.splits sum.splits)


lemma chat_requests_simps [simp]:
  "chat_requests [] = []"
  "chat_requests (a @ b) = chat_requests a @ chat_requests b"
  "chat_requests (e # es) =
     (case e of CallChatCreate request \<Rightarrow> [request] | _ \<Rightarrow> []) @ chat_requests es"
  by (simp_all add: chat_requests_def)

lemma review_requests_simps [simp]:
  "review_requests [] = []"
  "review_requests (a @ b) = review_requests a @ review_requests b"
  "review_requests (e # es) =
     (case e of CallCreateReview request \<Rightarrow> [request] | _ \<Rightarrow> []) @ review_requests es"
  by (simp_all add: review_requests_def)

lemma diff_fetches_simps [simp]:
  "diff_fetches [] = 0"
  "diff_fetches (a @ b) = diff_fetches a + diff_fetches b"
  "diff_fetches (e # es) =
     (case e of CallPullsGetDiff x y z \<Rightarrow> 1 | _ \<Rightarrow> 0) + diff_fetches es"
  by (simp_all add: diff_fetches_def split: event.splits)

lemma prompts_sent_simps [simp]:
  "prompts_sent [] = []"
  "prompts_sent (a @ b) = prompts_sent a @ prompts_sent b"
  by (simp_all add: prompts_sent_def)

lemma getAIResponse_trace:
  assumes "getAIResponse rt prompt w = (r, logged, w')"
  shows "chat_requests logged = [system_request rt prompt]"
    and "review_requests logged = []"
    and "diff_fetches logged = 0"
    and "w' = snd (chat_create rt w (system_request rt prompt))"
  using assms
  by (auto simp: getAIResponse_def handler_def after_response_def Let_def
      split: prod.splits sum.splits list.splits if_splits option.splits)

lemma getAIResponse_prompt:
  "getAIResponse rt prompt w = (r, logged, w') \<Longrightarrow> prompts_sent logged = [prompt]"
  by (simp add: prompts_sent_def getAIResponse_trace(1) system_request_def queryConfig_def)

lemma createComment_trace:
  "chat_requests (snd (createComment file chunk findings)) = []"
  "review_requests (snd (createComment file chunk findings)) = []"
  "diff_fetches (snd (createComment file chunk findings)) = 0"
  by (induction findings) (simp_all add: createComment_maps_every_finding)

lemma mapper_output_trace:
  "chat_requests (snd (mapper_output file chunk r)) = []"
  "review_requests (snd (mapper_output file chunk r)) = []"
  "diff_fetches (snd (mapper_output file chunk r)) = 0"
  by (cases r; simp add: createComment_trace)+

lemma mapper_output_path:
  "c \<in> set (fst (mapper_output file chunk r)) \<Longrightarrow> path c = to file"
  by (cases r) (auto simp: createComment_maps_every_finding)

lemma pair_pass_outputs:
  "pair_pass rt pr ps w = (Inr outs, t, w') \<Longrightarrow>
     length outs = length ps \<and>
     prompts_sent t = map (\<lambda>(f, c). createPrompt rt f c pr) ps \<and>
     (\<forall>i < length outs. \<forall>c \<in> set (outs ! i). path c = to (fst (ps ! i)))"
proof (induction ps arbitrary: w outs t w')
  case Nil
  then show ?case by simp
next
  case (Cons p ps)
  obtain f c where p: "p = (f, c)" by (cases p)
  from Cons.prems obtain r logged w1 outs1 t1 where
    ai: "getAIResponse rt (createPrompt rt f c pr) w = (Inr r, logged, w1)" and
    rest: "pair_pass rt pr ps w1 = (Inr outs1, t1, w')" and
    outs: "outs = fst (mapper_output f c r) # outs1" and
    t: "t = logged @ snd (mapper_output f c r) @ t1"
    by (auto simp: p split: prod.splits sum.splits)
  from Cons.IH [OF rest] have
    len: "length outs1 = length ps" and
    sent: "prompts_sent t1 = map (\<lambda>(f, c). createPrompt rt f c pr) ps" and
    paths: "\<forall>i < length outs1. \<forall>c \<in> set (outs1 ! i). path c = to (fst (ps ! i))"
    by simp_all
  have "prompts_sent (snd (mapper_output f c r)) = []"
    by (simp add: prompts_sent_def mapper_output_trace)
  then have "prompts_sent t = createPrompt rt f c pr # map (\<lambda>(f, c). createPrompt rt f c pr) ps"
    by (simp add: t sent getAIResponse_prompt [OF ai])
  moreover have "\<forall>i < length outs. \<forall>c \<in> set (outs ! i). path c = to (fst ((p # ps) ! i))"
  proof (intro allI impI)
    fix i assume "i < length outs"
    show "\<forall>c \<in> set (outs ! i). path c = to (fst ((p # ps) ! i))"
    proof (cases i)
      case 0
      then show ?thesis by (auto simp: outs p dest: mapper_output_path)
    next
      case (Suc j)
      with \<open>i < length outs\<close> paths show ?thesis by (simp add: outs)
    qed
  qed
  ultimately show ?case by (simp add: outs len p)
qed

section \<open>Evaluating the examples\<close>


lemma platform_fields:
  "OPENAI_API_MODEL (platform act files answers) = ''gpt-4o''"
  "EXTRA_INSTRUCTIONS (platform act files answers) = ''Keep test coverage above 80%.''"
  "exclude (platform act files answers) = '' *.md, ,**/*.lock''"
  "GITHUB_EVENT_NAME (platform act files answers) = Some ''pull_request''"
  "eventData (platform act files answers) =
     Inr \<lparr>repository_owner_login = ''octo'', repository_name = ''demo'', number = 7,
          action = act\<rparr>"
  "pulls_get (platform act files answers) =
     Inr \<lparr>pull_title = Some ''Add x'', pull_body = Some ''Adds a variable.''\<rparr>"
  "pulls_listCommits (platform act files answers) = Inr [''c1'', ''c2'']"
  "pulls_get_diff (platform act files answers) = Inr (Some ''diff --git a/a.py b/a.py'')"
  "parseDiff (platform act files answers) diff = Inr files"
  "minimatch (platform act files answers) = glob_matches"
  "chat_create (platform act files answers) = scripted answers"
  "JSON_parse (platform act files answers) = parse_examples"
  "pulls_createReview (platform act files answers) request = None"
  by (simp_all add: platform_def)

lemma excludePatterns_platform:
  "excludePatterns (platform act files answers) = [''*.md'', ''**/*.lock'']"
  by (simp add: excludePatterns_def platform_fields split_def trim_def is_white_def)

lemma a_py_not_excluded:
  "\<not> glob_matches ''a.py'' ''*.md''" "\<not> glob_matches ''a.py'' ''**/*.lock''"
  by (simp_all add: glob_matches_def minimatch_glob_def covered_def split_def plain_segment_def
      pattern_segment_def glob_special_def is_magic_def segment_match_def sublist_Cons_right)

lemma scripted_failing:
  "scripted failing_answers 0 request = (Inl (RequestError 503), 1)"
  "scripted failing_answers 1 request = (answer ''length'' magic_number_review, 2)"
  "scripted failing_answers 2 request = (answer ''stop'' ''I found no issues.'', 3)"
  "scripted failing_answers 3 request = (answer ''stop'' '' \<newline>  '', 4)"
  by (simp_all add: scripted_def failing_answers_def)

lemma failure_log_failing:
  "failure_log (platform act files answers) (Inl (RequestError 503)) =
     Some [ErrorAI (RequestError 503) None]"
  "failure_log (platform act files answers) (answer ''length'' magic_number_review) =
     Some [LogMaxContext]"
  "failure_log (platform act files answers) (answer ''stop'' ''I found no issues.'') =
     Some [ErrorAI SyntaxError (Some ''I found no issues.'')]"
  by (simp_all add: failure_log_def answer_def platform_fields parse_examples_def
      trim_def is_white_def magic_number_review_def)

lemma trim_5: "trim ''5'' = ''5''"
  by (simp add: trim_def is_white_def)

lemma Number_js_5: "Number_js ''5'' = Fin 5"
  by (simp add: Number_js_def trim_5 unsigned_decimal_def is_e_def mantissa_val_def
      numeral_val_def digit_val_def round_overflow_def)

lemma trim_magic: "trim magic_number_review = magic_number_review"
  by (simp add: trim_def is_white_def magic_number_review_def)

lemma parse_magic:
  "parse_examples magic_number_review = Inr (JsonValue (Reviews [magic_number_finding]))"
  by (simp add: parse_examples_def magic_number_review_def)

lemma magic_not_empty: "magic_number_review \<noteq> []"
  by (simp add: magic_number_review_def)

lemma run_a_py:
  "pair_pass (platform act files [answer ''stop'' magic_number_review]) pull [(a_py, hunk)] 0 =
     (Inr [[\<lparr>body = ''Use a named constant instead of a magic number.'', path = Some ''a.py'',
              line = Fin 5\<rparr>]],
      [CallChatCreate (system_request (platform act files [answer ''stop'' magic_number_review])
         (createPrompt (platform act files [answer ''stop'' magic_number_review]) a_py hunk pull)),
       LogCommenting (Fin 5) (Some ''a.py'')],
      1)"
proof -
  have "JSON_parse (platform act files [answer ''stop'' magic_number_review]) = parse_examples"
    and "chat_create (platform act files [answer ''stop'' magic_number_review]) 0 =
           (\<lambda>request. (answer ''stop'' magic_number_review, 1))"
    by (simp_all add: platform_def scripted_def fun_eq_iff)
  then show ?thesis
    by (simp add: getAIResponse_def after_response_def handler_def parse_reviews_def
        trim_magic parse_magic magic_not_empty createComment_maps_every_finding Number_js_5
        answer_def magic_number_finding_def a_py_def)
qed

lemma review_pairs_append:
  "review_pairs (xs @ ys) = review_pairs xs @ review_pairs ys"
  by (simp add: review_pairs_def)

lemma review_pairs_deleted:
  "to file = Some ''/dev/null'' \<Longrightarrow> review_pairs (file # files) = review_pairs files"
  by (simp add: review_pairs_def)

lemma filteredDiff_iff:
  "file \<in> set (filteredDiff rt files) \<longleftrightarrow>
     file \<in> set files \<and>
     \<not> list_ex (minimatch rt (or_empty (to file))) (excludePatterns rt)"
  by (auto simp: filteredDiff_def)

section \<open>The aggregation\<close>

text \<open>
  Claim C7: \<open>analyzeCode\<close> visits the pairs of a file and a chunk in file-then-chunk
  order and returns the concatenation, in that order, of what the mapper returns for each
  pair; every comment carries the path of the file whose chunk produced it. The run of
  \<open>analyzeCode\<close> is the single pass over \<^const>\<open>review_pairs\<close>: same result, same trace,
  same final state of the model. When the pass returns, it has one output per pair, the
  prompts it sent are those of the pairs in order, and the comments of the \<open>i\<close>-th output
  carry the path of the \<open>i\<close>-th pair's file.
\<close>

theorem analyzeCode_concatenates_in_order:
  "analyzeCode rt files pr w =
     (case pair_pass rt pr (review_pairs files) w of
        (Inl e, t, w') \<Rightarrow> (Inl e, t, w')
      | (Inr outs, t, w') \<Rightarrow> (Inr (concat outs), t, w')) \<and>
   (\<forall>outs t w'. pair_pass rt pr (review_pairs files) w = (Inr outs, t, w') \<longrightarrow>
      length outs = length (review_pairs files) \<and>
      prompts_sent t = map (\<lambda>(f, c). createPrompt rt f c pr) (review_pairs files) \<and>
      (\<forall>i < length outs. \<forall>c \<in> set (outs ! i). path c = to (fst (review_pairs files ! i))))"
proof (rule conjI)
  show "analyzeCode rt files pr w =
     (case pair_pass rt pr (review_pairs files) w of
        (Inl e, t, w') \<Rightarrow> (Inl e, t, w')
      | (Inr outs, t, w') \<Rightarrow> (Inr (concat outs), t, w'))"
    by (rule analyzeCode_pair_pass)
next
  show "\<forall>outs t w'. pair_pass rt pr (review_pairs files) w = (Inr outs, t, w') \<longrightarrow>
      length outs = length (review_pairs files) \<and>
      prompts_sent t = map (\<lambda>(f, c). createPrompt rt f c pr) (review_pairs files) \<and>
      (\<forall>i < length outs. \<forall>c \<in> set (outs ! i). path c = to (fst (review_pairs files ! i)))"
    by (intro allI impI) (erule pair_pass_outputs)
qed

theorem analyzeCode_concatenates_in_order_witness:
  "analyzeCode (platform None [] [answer ''stop'' magic_number_review]) [removed_py, a_py] pull 0 =
     (Inr [\<lparr>body = ''Use a named constant instead of a magic number.'', path = Some ''a.py'',
             line = Fin 5\<rparr>],
      [CallChatCreate (system_request (platform None [] [answer ''stop'' magic_number_review])
         (createPrompt (platform None [] [answer ''stop'' magic_number_review]) a_py hunk pull)),
       LogCommenting (Fin 5) (Some ''a.py'')],
      1) \<and>
   review_pairs [removed_py, a_py] = [(a_py, hunk)] \<and>
   prompts_sent
     [CallChatCreate (system_request (platform None [] [answer ''stop'' magic_number_review])
         (createPrompt (platform None [] [answer ''stop'' magic_number_review]) a_py hunk pull)),
      LogCommenting (Fin 5) (Some ''a.py'')] =
     [createPrompt (platform None [] [answer ''stop'' magic_number_review]) a_py hunk pull]"
proof -
  have pairs: "review_pairs [removed_py, a_py] = [(a_py, hunk)]"
    by (simp add: review_pairs_def removed_py_def a_py_def)
  from analyzeCode_concatenates_in_order
         [of "platform None [] [answer ''stop'' magic_number_review]" "[removed_py, a_py]" pull 0]
  show ?thesis
    unfolding pairs run_a_py by (simp add: prompts_sent_def system_request_def queryConfig_def)
qed

section \<open>Deleted files\<close>

text \<open>
  Claim C2: a file entry whose target path is \<open>/dev/null\<close> never appears in the output of
  the file filter, and none of its chunks is passed to the prompt builder or the model.
  The first part fails: the filter of \<open>main\<close> looks at the exclusion patterns only, and
  without any pattern a deleted file passes it.
\<close>

theorem deleted_file_passes_the_filter:
  "to removed_py = Some ''/dev/null'' \<and>
   excludePatterns ((platform None [] [])\<lparr>exclude := []\<rparr>) = [] \<and>
   filteredDiff ((platform None [] [])\<lparr>exclude := []\<rparr>) [removed_py, a_py] =
     [removed_py, a_py]"
proof -
  have none: "excludePatterns ((platform None [] [])\<lparr>exclude := []\<rparr>) = []"
    by (simp add: excludePatterns_def split_def trim_def)
  then show ?thesis
    by (simp add: filteredDiff_def removed_py_def)
qed

text \<open>
  Claim C2 as amended: the filter keeps a file entry whose target path is \<open>/dev/null\<close>
  unless an exclusion pattern matches that path; \<open>analyzeCode\<close> skips the entry, so that
  the analysis with it is the analysis without it: the same comments, the same requests to
  the model in the same trace, the same final state of the model.
\<close>

theorem deleted_file_is_skipped_by_analyzeCode:
  assumes "to file = Some ''/dev/null''"
  shows "(file \<in> set (filteredDiff rt files) \<longleftrightarrow>
            file \<in> set files \<and> \<not> list_ex (minimatch rt ''/dev/null'') (excludePatterns rt)) \<and>
         analyzeCode rt (before @ file # after) pr w = analyzeCode rt (before @ after) pr w"
proof (rule conjI)
  show "file \<in> set (filteredDiff rt files) \<longleftrightarrow>
          file \<in> set files \<and> \<not> list_ex (minimatch rt ''/dev/null'') (excludePatterns rt)"
    using assms by (simp add: filteredDiff_iff)
next
  have "review_pairs (before @ file # after) = review_pairs (before @ after)"
    using assms by (simp add: review_pairs_append review_pairs_deleted)
  then show "analyzeCode rt (before @ file # after) pr w = analyzeCode rt (before @ after) pr w"
    by (simp add: analyzeCode_pair_pass)
qed

theorem deleted_file_is_skipped_by_analyzeCode_witness:
  "to removed_py = Some ''/dev/null'' \<and>
   removed_py \<in> set (filteredDiff ((platform None [] [])\<lparr>exclude := []\<rparr>) [removed_py, a_py]) \<and>
   analyzeCode (platform None [] [answer ''stop'' magic_number_review])
       ([] @ removed_py # [a_py]) pull 0 =
     analyzeCode (platform None [] [answer ''stop'' magic_number_review]) ([] @ [a_py]) pull 0"
proof -
  have deleted: "to removed_py = Some ''/dev/null''"
    by (simp add: removed_py_def)
  have "excludePatterns ((platform None [] [])\<lparr>exclude := []\<rparr>) = []"
    by (simp add: excludePatterns_def split_def trim_def)
  then have unmatched:
    "\<not> list_ex (minimatch ((platform None [] [])\<lparr>exclude := []\<rparr>) ''/dev/null'')
           (excludePatterns ((platform None [] [])\<lparr>exclude := []\<rparr>))"
    by simp
  from deleted_file_is_skipped_by_analyzeCode
         [OF deleted, of "(platform None [] [])\<lparr>exclude := []\<rparr>" "[removed_py, a_py]"]
       deleted_file_is_skipped_by_analyzeCode
         [OF deleted, of "platform None [] [answer ''stop'' magic_number_review]"
            "[removed_py, a_py]" "[]" "[a_py]" pull 0]
       deleted unmatched
  show ?thesis by simp
qed

section \<open>Calls of the model that yield nothing\<close>

lemma failed_call_returns_null:
  assumes call: "chat_create rt w (system_request rt prompt) = (outcome, w')"
    and failure: "failure_log rt outcome = Some logged"
  shows "getAIResponse rt prompt w = (Inr Null, CallChatCreate (system_request rt prompt) # logged, w')"
  using assms
  by (auto simp: getAIResponse_def failure_log_def after_response_def handler_def
      parse_reviews_def Let_def
      split: sum.splits list.splits if_splits option.splits parsed.splits)

lemma review_alone:
  assumes call: "chat_create rt w (system_request rt (createPrompt rt f c pr)) =
                   (answer ''stop'' magic_number_review, w')"
    and parse: "JSON_parse rt = parse_examples"
  shows "pair_pass rt pr [(f, c)] w =
     (Inr [[\<lparr>body = ''Use a named constant instead of a magic number.'', path = to f,
              line = Fin 5\<rparr>]],
      [CallChatCreate (system_request rt (createPrompt rt f c pr)),
       LogCommenting (Fin 5) (to f)],
      w')"
  using call
  by (simp add: getAIResponse_def after_response_def handler_def parse_reviews_def parse
      trim_magic parse_magic magic_not_empty createComment_maps_every_finding Number_js_5
      answer_def magic_number_finding_def)

lemma review_pairs_first_chunk:
  assumes "to file \<noteq> Some ''/dev/null''" and "chunks file = chunk # rest"
  shows "review_pairs (file # files) = (file, chunk) # map (Pair file) rest @ review_pairs files"
  using assms by (simp add: review_pairs_Cons)

lemma scripted_cut_then_review:
  "scripted cut_then_review 0 request = (answer ''length'' magic_number_review, 1)"
  "scripted cut_then_review 1 request = (answer ''stop'' magic_number_review, 2)"
  by (simp_all add: scripted_def cut_then_review_def)

text \<open>
  Claim C3: a model response whose finish reason is \<open>length\<close>, a transport exception
  and a JSON-parsing exception each make \<open>getAIResponse\<close> return \<open>null\<close> after
  logging; the chunk contributes no findings and no comments, and the iteration over the
  remaining chunks and files continues. For each of the three failures
  (\<^const>\<open>failure_log\<close>) something is logged, \<open>getAIResponse\<close> returns \<open>null\<close>, and the
  loops go on: the comments collected so far are unchanged, the request and the logged
  lines are added to the trace, and what follows is the pass over the remaining chunks of
  the file and the chunks of the remaining files, which, when it returns, has sent the
  prompt of every one of them.
\<close>

theorem failed_call_contributes_nothing:
  assumes call: "chat_create rt w (system_request rt (createPrompt rt file chunk pr)) = (outcome, w')"
    and failure: "failure_log rt outcome = Some logged"
  shows "logged \<noteq> [] \<and>
     getAIResponse rt (createPrompt rt file chunk pr) w =
       (Inr Null, CallChatCreate (system_request rt (createPrompt rt file chunk pr)) # logged, w') \<and>
     chunk_loop rt pr file (chunk # rest) (comments, trace, w) =
       chunk_loop rt pr file rest
         (comments,
          trace @ CallChatCreate (system_request rt (createPrompt rt file chunk pr)) # logged, w') \<and>
     (to file \<noteq> Some ''/dev/null'' \<and> chunks file = chunk # rest \<longrightarrow>
        file_loop rt pr (file # files) (comments, trace, w) =
          (case pair_pass rt pr (map (Pair file) rest @ review_pairs files) w' of
             (Inl e, t, w'') \<Rightarrow>
               (Inl e,
                trace @ CallChatCreate (system_request rt (createPrompt rt file chunk pr)) #
                  logged @ t,
                w'')
           | (Inr outs, t, w'') \<Rightarrow>
               (Inr (comments @ concat outs),
                trace @ CallChatCreate (system_request rt (createPrompt rt file chunk pr)) #
                  logged @ t,
                w''))) \<and>
     (\<forall>outs t w''.
        pair_pass rt pr (map (Pair file) rest @ review_pairs files) w' = (Inr outs, t, w'') \<longrightarrow>
        length outs = length rest + length (review_pairs files) \<and>
        prompts_sent t =
          map (\<lambda>c. createPrompt rt file c pr) rest @
          map (\<lambda>(f, c). createPrompt rt f c pr) (review_pairs files))"
proof -
  let ?request = "CallChatCreate (system_request rt (createPrompt rt file chunk pr))"
  have nonempty: "logged \<noteq> []"
    using failure
    by (auto simp: failure_log_def Let_def split: sum.splits list.splits if_splits)
  have null: "getAIResponse rt (createPrompt rt file chunk pr) w =
       (Inr Null, ?request # logged, w')"
    by (rule failed_call_returns_null [OF call failure])
  have step: "chunk_loop rt pr file (chunk # rest) (comments, trace, w) =
       chunk_loop rt pr file rest (comments, trace @ ?request # logged, w')"
    by (simp add: null)
  have files: "file_loop rt pr (file # files) (comments, trace, w) =
          (case pair_pass rt pr (map (Pair file) rest @ review_pairs files) w' of
             (Inl e, t, w'') \<Rightarrow> (Inl e, trace @ ?request # logged @ t, w'')
           | (Inr outs, t, w'') \<Rightarrow>
               (Inr (comments @ concat outs), trace @ ?request # logged @ t, w''))"
    if "to file \<noteq> Some ''/dev/null''" and "chunks file = chunk # rest"
    unfolding file_loop_pair_pass review_pairs_first_chunk [OF that]
    by (simp add: null split: prod.splits sum.splits)
  have visited: "length outs = length rest + length (review_pairs files) \<and>
        prompts_sent t =
          map (\<lambda>c. createPrompt rt file c pr) rest @
          map (\<lambda>(f, c). createPrompt rt f c pr) (review_pairs files)"
    if "pair_pass rt pr (map (Pair file) rest @ review_pairs files) w' = (Inr outs, t, w'')"
    for outs t w''
    using pair_pass_outputs [OF that] by (simp add: comp_def)
  from nonempty null step files visited show ?thesis
    by blast
qed

theorem failed_call_contributes_nothing_witness:
  "getAIResponse (platform None [] failing_answers)
       (createPrompt (platform None [] failing_answers) a_py hunk pull) 0 =
     (Inr Null,
      [CallChatCreate (system_request (platform None [] failing_answers)
         (createPrompt (platform None [] failing_answers) a_py hunk pull)),
       ErrorAI (RequestError 503) None], 1) \<and>
   getAIResponse (platform None [] failing_answers)
       (createPrompt (platform None [] failing_answers) a_py hunk pull) 1 =
     (Inr Null,
      [CallChatCreate (system_request (platform None [] failing_answers)
         (createPrompt (platform None [] failing_answers) a_py hunk pull)),
       LogMaxContext], 2) \<and>
   getAIResponse (platform None [] failing_answers)
       (createPrompt (platform None [] failing_answers) a_py hunk pull) 2 =
     (Inr Null,
      [CallChatCreate (system_request (platform None [] failing_answers)
         (createPrompt (platform None [] failing_answers) a_py hunk pull)),
       ErrorAI SyntaxError (Some ''I found no issues.'')], 3) \<and>
   file_loop (platform None [] cut_then_review) pull [a_py, src_app_ts] ([], [], 0) =
     (Inr [\<lparr>body = ''Use a named constant instead of a magic number.'',
             path = Some ''src/app.ts'', line = Fin 5\<rparr>],
      [CallChatCreate (system_request (platform None [] cut_then_review)
         (createPrompt (platform None [] cut_then_review) a_py hunk pull)),
       LogMaxContext,
       CallChatCreate (system_request (platform None [] cut_then_review)
         (createPrompt (platform None [] cut_then_review) src_app_ts hunk pull)),
       LogCommenting (Fin 5) (Some ''src/app.ts'')],
      2)"
proof -
  have kept: "to a_py \<noteq> Some ''/dev/null'' \<and> chunks a_py = hunk # []"
    by (simp add: a_py_def)
  have call:
    "chat_create (platform None [] failing_answers) 0
       (system_request (platform None [] failing_answers)
          (createPrompt (platform None [] failing_answers) a_py hunk pull)) =
     (Inl (RequestError 503), 1)"
    "chat_create (platform None [] failing_answers) 1
       (system_request (platform None [] failing_answers)
          (createPrompt (platform None [] failing_answers) a_py hunk pull)) =
     (answer ''length'' magic_number_review, 2)"
    "chat_create (platform None [] failing_answers) 2
       (system_request (platform None [] failing_answers)
          (createPrompt (platform None [] failing_answers) a_py hunk pull)) =
     (answer ''stop'' ''I found no issues.'', 3)"
    by (simp_all only: platform_fields scripted_failing)
  have cut:
    "chat_create (platform None [] cut_then_review) 0
       (system_request (platform None [] cut_then_review)
          (createPrompt (platform None [] cut_then_review) a_py hunk pull)) =
     (answer ''length'' magic_number_review, 1)"
    by (simp only: platform_fields scripted_cut_then_review)
  have remaining: "map (Pair a_py) [] @ review_pairs [src_app_ts] = [(src_app_ts, hunk)]"
    by (simp add: review_pairs_def src_app_ts_def)
  have next_file:
    "pair_pass (platform None [] cut_then_review) pull [(src_app_ts, hunk)] 1 =
     (Inr [[\<lparr>body = ''Use a named constant instead of a magic number.'',
              path = to src_app_ts, line = Fin 5\<rparr>]],
      [CallChatCreate (system_request (platform None [] cut_then_review)
         (createPrompt (platform None [] cut_then_review) src_app_ts hunk pull)),
       LogCommenting (Fin 5) (to src_app_ts)],
      2)"
    by (rule review_alone) (simp_all only: platform_fields scripted_cut_then_review)
  have path: "to src_app_ts = Some ''src/app.ts''"
    by (simp add: src_app_ts_def)
  note cut_off = failed_call_contributes_nothing
         [OF cut failure_log_failing(2), where rest = "[]" and comments = "[]"
            and trace = "[]" and files = "[src_app_ts]"]
  have "file_loop (platform None [] cut_then_review) pull (a_py # [src_app_ts]) ([], [], 0) =
      (case pair_pass (platform None [] cut_then_review) pull
              (map (Pair a_py) [] @ review_pairs [src_app_ts]) 1 of
         (Inl e, t, w'') \<Rightarrow>
           (Inl e,
            [] @ CallChatCreate (system_request (platform None [] cut_then_review)
                   (createPrompt (platform None [] cut_then_review) a_py hunk pull)) #
              [LogMaxContext] @ t,
            w'')
       | (Inr outs, t, w'') \<Rightarrow>
           (Inr ([] @ concat outs),
            [] @ CallChatCreate (system_request (platform None [] cut_then_review)
                   (createPrompt (platform None [] cut_then_review) a_py hunk pull)) #
              [LogMaxContext] @ t,
            w''))"
    by (rule cut_off [THEN conjunct2, THEN conjunct2, THEN conjunct2, THEN conjunct1,
                      THEN mp, OF kept])
  also have "\<dots> =
     (Inr [\<lparr>body = ''Use a named constant instead of a magic number.'',
             path = Some ''src/app.ts'', line = Fin 5\<rparr>],
      [CallChatCreate (system_request (platform None [] cut_then_review)
         (createPrompt (platform None [] cut_then_review) a_py hunk pull)),
       LogMaxContext,
       CallChatCreate (system_request (platform None [] cut_then_review)
         (createPrompt (platform None [] cut_then_review) src_app_ts hunk pull)),
       LogCommenting (Fin 5) (Some ''src/app.ts'')],
      2)"
    unfolding remaining next_file path by simp
  finally have resumed:
    "file_loop (platform None [] cut_then_review) pull (a_py # [src_app_ts]) ([], [], 0) =
     (Inr [\<lparr>body = ''Use a named constant instead of a magic number.'',
             path = Some ''src/app.ts'', line = Fin 5\<rparr>],
      [CallChatCreate (system_request (platform None [] cut_then_review)
         (createPrompt (platform None [] cut_then_review) a_py hunk pull)),
       LogMaxContext,
       CallChatCreate (system_request (platform None [] cut_then_review)
         (createPrompt (platform None [] cut_then_review) src_app_ts hunk pull)),
       LogCommenting (Fin 5) (Some ''src/app.ts'')],
      2)" .
  have first: "getAIResponse (platform None [] failing_answers)
       (createPrompt (platform None [] failing_answers) a_py hunk pull) 0 =
     (Inr Null,
      [CallChatCreate (system_request (platform None [] failing_answers)
         (createPrompt (platform None [] failing_answers) a_py hunk pull)),
       ErrorAI (RequestError 503) None], 1)"
    by (rule failed_call_contributes_nothing
          [OF call(1) failure_log_failing(1), THEN conjunct2, THEN conjunct1])
  have second: "getAIResponse (platform None [] failing_answers)
       (createPrompt (platform None [] failing_answers) a_py hunk pull) 1 =
     (Inr Null,
      [CallChatCreate (system_request (platform None [] failing_answers)
         (createPrompt (platform None [] failing_answers) a_py hunk pull)),
       LogMaxContext], 2)"
    by (rule failed_call_contributes_nothing
          [OF call(2) failure_log_failing(2), THEN conjunct2, THEN conjunct1])
  have third: "getAIResponse (platform None [] failing_answers)
       (createPrompt (platform None [] failing_answers) a_py hunk pull) 2 =
     (Inr Null,
      [CallChatCreate (system_request (platform None [] failing_answers)
         (createPrompt (platform None [] failing_answers) a_py hunk pull)),
       ErrorAI SyntaxError (Some ''I found no issues.'')], 3)"
    by (rule failed_call_contributes_nothing
          [OF call(3) failure_log_failing(3), THEN conjunct2, THEN conjunct1])
  from first second third resumed show ?thesis
    by (intro conjI)
qed

lemma trim_blank:
  assumes "list_all is_white c"
  shows "trim c = []"
proof -
  have blank: "dropWhile is_white c = []"
    using assms by (induction c) simp_all
  show ?thesis unfolding trim_def blank by simp
qed

text \<open>
  Claim C10: for a successful model call that is not cut off and whose message content is
  empty or consists of white space, \<open>getAIResponse\<close> takes \<open>{}\<close> for the content; the
  object parsed from it has no \<open>reviews\<close> property, so \<open>getAIResponse\<close> returns
  \<open>undefined\<close>, nothing is logged, and the chunk contributes no comment while the loop goes
  on. That \<open>JSON.parse\<close> reads \<open>{}\<close> as an object without that property is the one
  assumption on \<open>JSON.parse\<close>.
\<close>

theorem blank_content_contributes_nothing:
  assumes call: "chat_create rt w (system_request rt (createPrompt rt file chunk pr)) =
                   (Inr response, w')"
    and first: "choices response = choice # others"
    and not_truncated: "finish_reason choice \<noteq> ''length''"
    and blank: "message choice = Some m" "ChoiceMessage.content m = Some c" "list_all is_white c"
    and parse: "JSON_parse rt ''{}'' = Inr (JsonValue Undefined)"
  shows "or_empty_object (Some c) = ''{}'' \<and>
     getAIResponse rt (createPrompt rt file chunk pr) w =
       (Inr Undefined, [CallChatCreate (system_request rt (createPrompt rt file chunk pr))], w') \<and>
     chunk_loop rt pr file (chunk # rest) (comments, trace, w) =
       chunk_loop rt pr file rest
         (comments,
          trace @ [CallChatCreate (system_request rt (createPrompt rt file chunk pr))], w')"
proof -
  have default: "or_empty_object (Some c) = ''{}''"
    using blank(3) by (simp add: trim_blank)
  have undefined: "getAIResponse rt (createPrompt rt file chunk pr) w =
       (Inr Undefined, [CallChatCreate (system_request rt (createPrompt rt file chunk pr))], w')"
    using call first not_truncated blank(1,2) parse default
    by (simp add: getAIResponse_def after_response_def parse_reviews_def)
  from default undefined show ?thesis by simp
qed

theorem blank_content_contributes_nothing_witness:
  "list_all is_white '' \<newline>  '' \<and>
   getAIResponse (platform None [] failing_answers)
       (createPrompt (platform None [] failing_answers) a_py hunk pull) 3 =
     (Inr Undefined,
      [CallChatCreate (system_request (platform None [] failing_answers)
         (createPrompt (platform None [] failing_answers) a_py hunk pull))], 4) \<and>
   chunk_loop (platform None [] failing_answers) pull a_py (hunk # []) ([], [], 3) =
     chunk_loop (platform None [] failing_answers) pull a_py []
       ([],
        [] @ [CallChatCreate (system_request (platform None [] failing_answers)
           (createPrompt (platform None [] failing_answers) a_py hunk pull))], 4)"
proof -
  have blank: "list_all is_white '' \<newline>  ''"
    by (simp add: is_white_def)
  have call:
    "chat_create (platform None [] failing_answers) 3
       (system_request (platform None [] failing_answers)
          (createPrompt (platform None [] failing_answers) a_py hunk pull)) =
     (Inr \<lparr>choices = [\<lparr>finish_reason = ''stop'',
                        message = Some \<lparr>content = Some '' \<newline>  ''\<rparr>\<rparr>]\<rparr>, 4)"
    by (simp only: platform_fields scripted_failing answer_def)
  have parse: "JSON_parse (platform None [] failing_answers) ''{}'' = Inr (JsonValue Undefined)"
    by (simp add: platform_fields parse_examples_def)
  from blank_content_contributes_nothing
         [OF call _ _ _ _ blank parse,
          of "\<lparr>finish_reason = ''stop'', message = Some \<lparr>content = Some '' \<newline>  ''\<rparr>\<rparr>"
             "[]" "\<lparr>content = Some '' \<newline>  ''\<rparr>" "[]" "[]" "[]"]
       blank
  show ?thesis by simp
qed

section \<open>The run as a whole\<close>

text \<open>Neither \<open>getPRDetails\<close> nor \<open>analyzeCode\<close> submits a review or fetches the diff.\<close>

lemma pair_pass_trace:
  "pair_pass rt pr ps w = (r, t, w') \<Longrightarrow> review_requests t = [] \<and> diff_fetches t = 0"
proof (induction ps arbitrary: w r t w')
  case Nil
  then show ?case by auto
next
  case (Cons p ps)
  obtain f c where p: "p = (f, c)" by (cases p)
  obtain r1 logged w1 where ai: "getAIResponse rt (createPrompt rt f c pr) w = (r1, logged, w1)"
    by (cases "getAIResponse rt (createPrompt rt f c pr) w") auto
  note quiet = getAIResponse_trace(2,3) [OF ai]
  show ?case
  proof (cases r1)
    case (Inl e)
    with Cons.prems ai quiet show ?thesis by (auto simp: p)
  next
    case (Inr a)
    obtain r2 t2 w2 where rest: "pair_pass rt pr ps w1 = (r2, t2, w2)"
      by (cases "pair_pass rt pr ps w1") auto
    from Cons.IH [OF rest] have "review_requests t2 = []" "diff_fetches t2 = 0"
      by simp_all
    with Cons.prems ai quiet Inr rest show ?thesis
      by (auto simp: p mapper_output_trace split: sum.splits)
  qed
qed

lemma analyzeCode_trace:
  assumes "analyzeCode rt files pr w = (r, t, w')"
  shows "review_requests t = []" and "diff_fetches t = 0"
proof -
  obtain r2 t2 w2 where pass: "pair_pass rt pr (review_pairs files) w = (r2, t2, w2)"
    by (cases "pair_pass rt pr (review_pairs files) w") auto
  with assms have "t = t2"
    by (auto simp: analyzeCode_pair_pass split: sum.splits)
  with pair_pass_trace [OF pass] show "review_requests t = []" and "diff_fetches t = 0"
    by simp_all
qed

lemma getPRDetails_trace:
  assumes "getPRDetails rt = (r, t)"
  shows "review_requests t = []" and "chat_requests t = []" and "diff_fetches t = 0"
  using assms
  by (auto simp: getPRDetails_def Let_def split: sum.splits if_splits)

lemma createReviewComment_requests:
  "review_requests (createReviewComment rt o_name r_name n c_id comments) =
     [\<lparr>review_owner = o_name, review_repo = r_name, review_pull_number = n,
       review_commit_id = c_id, review_comments = comments, review_event = ''COMMENT''\<rparr>]"
  by (simp add: createReviewComment_def Let_def split: option.splits)

lemma getPRDetails_platform:
  "getPRDetails (platform act files answers) =
     (Inr pull, [CallPullsGet ''octo'' ''demo'' 7, CallListCommits ''octo'' ''demo'' 7])"
  by (simp add: getPRDetails_def platform_fields pull_def)

lemma filteredDiff_a_py: "filteredDiff (platform act files answers) [a_py] = [a_py]"
  by (simp add: filteredDiff_def excludePatterns_platform platform_fields a_py_def
      a_py_not_excluded)

lemma review_pairs_a_py: "review_pairs [a_py] = [(a_py, hunk)]"
  by (simp add: review_pairs_def a_py_def)

lemma analyzeCode_a_py:
  "analyzeCode (platform act files [answer ''stop'' magic_number_review]) [a_py] pull 0 =
     (Inr [\<lparr>body = ''Use a named constant instead of a magic number.'', path = Some ''a.py'',
             line = Fin 5\<rparr>],
      [CallChatCreate (system_request (platform act files [answer ''stop'' magic_number_review])
         (createPrompt (platform act files [answer ''stop'' magic_number_review]) a_py hunk pull)),
       LogCommenting (Fin 5) (Some ''a.py'')],
      1)"
  unfolding analyzeCode_pair_pass review_pairs_a_py run_a_py by simp

lemma analyzeCode_no_answer:
  "analyzeCode (platform act files []) [a_py] pull 0 =
     (Inr [],
      [CallChatCreate (system_request (platform act files [])
         (createPrompt (platform act files []) a_py hunk pull)),
       ErrorAI (RequestError 500) None],
      1)"
proof -
  have "getAIResponse (platform act files []) (createPrompt (platform act files []) a_py hunk pull) 0 =
      (Inr Null,
       [CallChatCreate (system_request (platform act files [])
          (createPrompt (platform act files []) a_py hunk pull)),
        ErrorAI (RequestError 500) None], 1)"
  proof (rule failed_call_returns_null)
    show "chat_create (platform act files [])  0
            (system_request (platform act files [])
               (createPrompt (platform act files []) a_py hunk pull)) =
          (Inl (RequestError 500), 1)"
      by (simp add: platform_fields scripted_def)
    show "failure_log (platform act files []) (Inl (RequestError 500)) =
            Some [ErrorAI (RequestError 500) None]"
      by (simp add: failure_log_def)
  qed
  then show ?thesis
    by (simp add: analyzeCode_pair_pass review_pairs_a_py)
qed

text \<open>
  Claim C5: in a run whose aggregated list of comments is empty the submission is never
  invoked and the run ends in the clean state; in a run with at least one comment exactly
  one batched submission is made. A run gets as far as the aggregation when the details of
  the pull request were fetched, the action is \<open>opened\<close> or \<open>synchronize\<close>, a non-empty
  diff was fetched and parsed, and \<open>analyzeCode\<close> returned. Then \<open>main\<close> returns normally
  and the process does not exit with an error; the trace holds no request to create a
  review when there is no comment, and it ends with the line that there is nothing to
  post; otherwise it holds exactly one such request, with all the comments and the
  commit of the pull request.
\<close>

theorem one_review_unless_no_comments:
  assumes details: "getPRDetails rt = (Inr prDetails, t0)"
    and payload: "eventData rt = Inr ev"
    and supported: "action ev = Some ''opened'' \<or> action ev = Some ''synchronize''"
    and fetched: "pulls_get_diff rt = Inr (Some diff)" "diff \<noteq> []"
    and parsed: "parseDiff rt diff = Inr parsedDiff"
    and aggregated:
      "analyzeCode rt (filteredDiff rt parsedDiff) prDetails w = (Inr comments, trace, w')"
  shows "fst (main rt w) = Inr () \<and>
     run rt w = (fst (snd (main rt w)), w') \<and>
     review_requests (fst (snd (main rt w))) =
       (if comments = [] then []
        else [\<lparr>review_owner = owner prDetails, review_repo = repo prDetails,
                review_pull_number = pull_number prDetails,
                review_commit_id = commit_id prDetails, review_comments = comments,
                review_event = ''COMMENT''\<rparr>]) \<and>
     (comments = [] \<longrightarrow>
        fst (snd (main rt w)) =
          t0 @ [CallPullsGetDiff (owner prDetails) (repo prDetails) (pull_number prDetails)] @
          trace @ [LogNoComments])"
proof -
  let ?fetch = "CallPullsGetDiff (owner prDetails) (repo prDetails) (pull_number prDetails)"
  let ?submit = "createReviewComment rt (owner prDetails) (repo prDetails)
                   (pull_number prDetails) (commit_id prDetails) comments"
  have main: "main rt w =
      (Inr (), t0 @ [?fetch] @ trace @ (if comments = [] then [LogNoComments] else ?submit), w')"
    using assms by (simp add: main_def review_def getDiff_def)
  have quiet: "review_requests t0 = []" "review_requests trace = []"
    using getPRDetails_trace(1) [OF details] analyzeCode_trace(1) [OF aggregated] by simp_all
  from main quiet show ?thesis
    by (simp add: run_def createReviewComment_requests)
qed

theorem one_review_unless_no_comments_witness:
  "fst (main (platform (Some ''opened'') [a_py] [answer ''stop'' magic_number_review]) 0) = Inr () \<and>
   review_requests
     (fst (snd (main (platform (Some ''opened'') [a_py] [answer ''stop'' magic_number_review]) 0))) =
     [\<lparr>review_owner = ''octo'', review_repo = ''demo'', review_pull_number = 7,
       review_commit_id = ''c2'',
       review_comments =
         [\<lparr>body = ''Use a named constant instead of a magic number.'', path = Some ''a.py'',
           line = Fin 5\<rparr>],
       review_event = ''COMMENT''\<rparr>] \<and>
   fst (main (platform (Some ''synchronize'') [a_py] []) 0) = Inr () \<and>
   review_requests (fst (snd (main (platform (Some ''synchronize'') [a_py] []) 0))) = []"
proof -
  have opened:
    "eventData (platform (Some ''opened'') [a_py] [answer ''stop'' magic_number_review]) =
       Inr \<lparr>repository_owner_login = ''octo'', repository_name = ''demo'', number = 7,
            action = Some ''opened''\<rparr>"
    and synchronize:
    "eventData (platform (Some ''synchronize'') [a_py] []) =
       Inr \<lparr>repository_owner_login = ''octo'', repository_name = ''demo'', number = 7,
            action = Some ''synchronize''\<rparr>"
    by (simp_all add: platform_fields)
  have some:
    "analyzeCode (platform (Some ''opened'') [a_py] [answer ''stop'' magic_number_review])
       (filteredDiff (platform (Some ''opened'') [a_py] [answer ''stop'' magic_number_review]) [a_py])
       pull 0 =
     (Inr [\<lparr>body = ''Use a named constant instead of a magic number.'', path = Some ''a.py'',
             line = Fin 5\<rparr>],
      [CallChatCreate
         (system_request (platform (Some ''opened'') [a_py] [answer ''stop'' magic_number_review])
            (createPrompt (platform (Some ''opened'') [a_py] [answer ''stop'' magic_number_review])
               a_py hunk pull)),
       LogCommenting (Fin 5) (Some ''a.py'')],
      1)"
    by (simp only: filteredDiff_a_py analyzeCode_a_py)
  have none:
    "analyzeCode (platform (Some ''synchronize'') [a_py] [])
       (filteredDiff (platform (Some ''synchronize'') [a_py] []) [a_py]) pull 0 =
     (Inr [],
      [CallChatCreate (system_request (platform (Some ''synchronize'') [a_py] [])
         (createPrompt (platform (Some ''synchronize'') [a_py] []) a_py hunk pull)),
       ErrorAI (RequestError 500) None],
      1)"
    by (simp only: filteredDiff_a_py analyzeCode_no_answer)
  from one_review_unless_no_comments
         [OF getPRDetails_platform opened _ platform_fields(8) _ platform_fields(9) some]
       one_review_unless_no_comments
         [OF getPRDetails_platform synchronize _ platform_fields(8) _ platform_fields(9) none]
  show ?thesis by (simp add: pull_def)
qed

text \<open>
  Claim C9: for every event payload whose action is neither \<open>opened\<close> nor
  \<open>synchronize\<close>, \<open>main\<close> logs that the event is unsupported and returns early: no diff is
  fetched, no prompt is built, no model call is made and no review is submitted.
  \<open>main\<close> looks at the action only after \<open>getPRDetails\<close> has returned. When the request
  for the pull request fails, \<open>main\<close> is left by the exception, the line about the
  unsupported event is not logged and the process exits with status 1.
\<close>

theorem failed_metadata_fetch_logs_no_unsupported_event:
  "eventData ((platform (Some ''closed'') [a_py] [])\<lparr>pulls_get := Inl (RequestError 404)\<rparr>) =
     Inr \<lparr>repository_owner_login = ''octo'', repository_name = ''demo'', number = 7,
          action = Some ''closed''\<rparr> \<and>
   main ((platform (Some ''closed'') [a_py] [])\<lparr>pulls_get := Inl (RequestError 404)\<rparr>) 0 =
     (Inl (RequestError 404), [CallPullsGet ''octo'' ''demo'' 7], 0) \<and>
   run ((platform (Some ''closed'') [a_py] [])\<lparr>pulls_get := Inl (RequestError 404)\<rparr>) 0 =
     ([CallPullsGet ''octo'' ''demo'' 7, ErrorMain (RequestError 404), Exit 1], 0)"
  by (simp add: run_def main_def getPRDetails_def platform_def)

text \<open>
  Claim C9 as amended: for every event payload whose action is neither \<open>opened\<close> nor
  \<open>synchronize\<close>, once \<open>getPRDetails\<close> has returned \<open>main\<close> logs that the event is
  unsupported and returns; and whether or not \<open>getPRDetails\<close> returns, no diff is fetched,
  no request is sent to the model (a prompt is only ever built to be sent), no review is
  submitted and the state of the model is untouched.
\<close>

theorem unsupported_event_returns_early:
  assumes payload: "eventData rt = Inr ev"
    and other: "action ev \<noteq> Some ''opened''" "action ev \<noteq> Some ''synchronize''"
  shows "(\<forall>prDetails t0. getPRDetails rt = (Inr prDetails, t0) \<longrightarrow>
            main rt w = (Inr (), t0 @ [LogUnsupportedEvent (GITHUB_EVENT_NAME rt)], w)) \<and>
         diff_fetches (fst (snd (main rt w))) = 0 \<and>
         chat_requests (fst (snd (main rt w))) = [] \<and>
         review_requests (fst (snd (main rt w))) = [] \<and>
         snd (snd (main rt w)) = w"
proof -
  obtain r t0 where details: "getPRDetails rt = (r, t0)"
    by (cases "getPRDetails rt") auto
  note quiet = getPRDetails_trace [OF details]
  show ?thesis
  proof (cases r)
    case (Inl e)
    with details quiet show ?thesis by (simp add: main_def)
  next
    case (Inr prDetails)
    with details quiet payload other show ?thesis by (simp add: main_def)
  qed
qed

theorem unsupported_event_returns_early_witness:
  "main (platform (Some ''closed'') [a_py] [answer ''stop'' magic_number_review]) 0 =
     (Inr (),
      [CallPullsGet ''octo'' ''demo'' 7, CallListCommits ''octo'' ''demo'' 7] @
      [LogUnsupportedEvent (Some ''pull_request'')], 0) \<and>
   diff_fetches
     (fst (snd (main (platform (Some ''closed'') [a_py] [answer ''stop'' magic_number_review]) 0))) = 0"
proof -
  have payload:
    "eventData (platform (Some ''closed'') [a_py] [answer ''stop'' magic_number_review]) =
       Inr \<lparr>repository_owner_login = ''octo'', repository_name = ''demo'', number = 7,
            action = Some ''closed''\<rparr>"
    by (simp add: platform_fields)
  from unsupported_event_returns_early [OF payload, of 0] getPRDetails_platform
  show ?thesis by (simp add: platform_fields)
qed

section \<open>The extra instructions\<close>

lemma createPrompt_contains_extension:
  "sublist (EXTRA_INSTRUCTIONS rt) (createPrompt rt file chunk pr)"
  unfolding createPrompt_def by (rule sublist_appendI)

lemma diffContent_hunk: "diffContent hunk = ''4  import os\<newline>5 +x = 1\<newline>5  print(x)''"
  by code_simp

lemma no_percent_in_system_content: "CHR ''%'' \<notin> set system_content"
  by (simp add: system_content_def)

lemma content_hunk: "Chunk.content hunk = ''@@ -4,2 +4,3 @@''"
  by (simp add: hunk_def)

lemma no_percent_in_userMessage: "CHR ''%'' \<notin> set (userMessage hunk pull)"
  by (simp add: userMessage_def diffContent_hunk content_hunk pull_def)

text \<open>
  Claim C8: for every file, chunk and pull request the prompt that the prompt builder
  makes contains the caller's extra instructions verbatim, appended to the fixed policy,
  and so does every prompt that is sent to the model. The first \<open>createPrompt\<close> puts them
  right after the fixed policy. The second \<open>createPrompt\<close> does not use them at all: with
  the instructions \<open>Keep test coverage above 80%.\<close> neither of its two messages contains
  them, while the prompt of the first version does.
\<close>

theorem second_createPrompt_drops_extension:
  "EXTRA_INSTRUCTIONS (platform None [] []) = ''Keep test coverage above 80%.'' \<and>
   sublist (EXTRA_INSTRUCTIONS (platform None [] []))
     (createPrompt (platform None [] []) a_py hunk pull) \<and>
   \<not> list_ex (\<lambda>m. sublist (EXTRA_INSTRUCTIONS (platform None [] [])) (ChatMessage.content m))
         (createPrompt_messages (platform None [] []) a_py hunk pull)"
proof -
  have percent: "CHR ''%'' \<in> set (EXTRA_INSTRUCTIONS (platform None [] []))"
    by (simp add: platform_fields)
  have "\<not> sublist (EXTRA_INSTRUCTIONS (platform None [] [])) s" if "CHR ''%'' \<notin> set s" for s
    using that percent set_mono_sublist by blast
  with no_percent_in_system_content no_percent_in_userMessage
  have "\<not> list_ex (\<lambda>m. sublist (EXTRA_INSTRUCTIONS (platform None [] [])) (ChatMessage.content m))
         (createPrompt_messages (platform None [] []) a_py hunk pull)"
    by (simp add: createPrompt_messages_def)
  moreover have "EXTRA_INSTRUCTIONS (platform None [] []) = ''Keep test coverage above 80%.''"
    by (simp add: platform_fields)
  moreover have "sublist (EXTRA_INSTRUCTIONS (platform None [] []))
     (createPrompt (platform None [] []) a_py hunk pull)"
    by (rule createPrompt_contains_extension)
  ultimately show ?thesis by (intro conjI)
qed

section \<open>The exclusion patterns and the file filter\<close>

lemma split_from_nonempty: "split_from sep cur s \<noteq> []"
  by (induction s arbitrary: cur) simp_all

lemma join_Cons: "xs \<noteq> [] \<Longrightarrow> join sep (x # xs) = x @ sep @ join sep xs"
  by (cases xs) simp_all

lemma split_from_join:
  "join [sep] (split_from sep cur s) = rev cur @ s"
proof (induction s arbitrary: cur)
  case Nil
  show ?case by simp
next
  case (Cons c s)
  show ?case
    by (simp add: Cons.IH join_Cons split_from_nonempty)
qed

lemma split_from_pieces:
  "sep \<notin> set cur \<Longrightarrow> x \<in> set (split_from sep cur s) \<Longrightarrow> sep \<notin> set x"
proof (induction s arbitrary: cur)
  case Nil
  then show ?case by simp
next
  case (Cons c s)
  show ?case
  proof (cases "c = sep")
    case True
    with Cons.prems have "x = rev cur \<or> x \<in> set (split_from sep [] s)"
      by simp
    with Cons.prems(1) Cons.IH [of "[]"] show ?thesis by auto
  next
    case False
    with Cons.prems have "x \<in> set (split_from sep (c # cur) s)"
      by simp
    with False Cons.prems(1) Cons.IH [of "c # cur"] show ?thesis by simp
  qed
qed

lemma join_split: "join [sep] (split sep s) = s"
  by (simp add: split_def split_from_join)

lemma split_pieces: "x \<in> set (split sep s) \<Longrightarrow> sep \<notin> set x"
  using split_from_pieces [of sep "[]" x s] by (simp add: split_def)

lemma subseq_filteredDiff: "subseq (filteredDiff rt files) files"
  by (simp add: filteredDiff_def)

lemma excludePatterns_set:
  "set (excludePatterns rt) = {trim s |s. s \<in> set (split CHR '','' (exclude rt)) \<and> trim s \<noteq> []}"
  by (auto simp: excludePatterns_def)

lemma glob_examples:
  "minimatch_glob ''readme.md'' ''*.md'' = Some True"
  "minimatch_glob ''docs/readme.md'' ''*.md'' = Some False"
  "minimatch_glob ''src/app.ts'' ''*.md'' = Some False"
  "minimatch_glob ''docs/readme.md'' ''**/*.md'' = Some True"
  by (simp_all add: minimatch_glob_def covered_def split_def plain_segment_def
      pattern_segment_def glob_special_def is_magic_def segment_match_def sublist_Cons_right)

lemma trim_ends:
  assumes "trim s \<noteq> []"
  shows "\<not> is_white (hd (trim s))" and "\<not> is_white (last (trim s))"
proof -
  let ?ys = "dropWhile is_white s"
  let ?zs = "dropWhile is_white (rev ?ys)"
  from assms have zs: "?zs \<noteq> []"
    by (simp add: trim_def)
  have ys: "?ys \<noteq> []"
  proof
    assume empty: "?ys = []"
    have "?zs = []"
      unfolding empty by simp
    with zs show False by contradiction
  qed
  have "last ?zs = last (rev ?ys)"
    using zs by (metis append_is_Nil_conv last_appendR takeWhile_dropWhile_id)
  then have "hd (trim s) = hd ?ys"
    using zs ys by (simp add: trim_def hd_rev last_rev)
  with ys show "\<not> is_white (hd (trim s))"
    by (simp add: hd_dropWhile)
  have "last (trim s) = hd ?zs"
    using zs by (simp add: trim_def last_rev)
  with zs show "\<not> is_white (last (trim s))"
    by (simp add: hd_dropWhile)
qed

lemma glob_matches_examples:
  "glob_matches ''readme.md'' ''*.md''"
  "\<not> glob_matches ''docs/readme.md'' ''*.md''"
  "\<not> glob_matches ''src/app.ts'' ''*.md''"
  by (simp_all add: glob_matches_def glob_examples)

lemma lock_examples:
  "\<not> glob_matches ''docs/readme.md'' ''**/*.lock''"
  "\<not> glob_matches ''src/app.ts'' ''**/*.lock''"
  by (simp_all add: glob_matches_def minimatch_glob_def covered_def split_def plain_segment_def
      pattern_segment_def glob_special_def is_magic_def segment_match_def sublist_Cons_right)

lemma filteredDiff_filter:
  "filteredDiff rt files =
     filter (\<lambda>file. \<not> (\<exists>pattern \<in> set (excludePatterns rt).
                          minimatch rt (or_empty (to file)) pattern)) files"
  by (simp add: filteredDiff_def list_ex_iff)

text \<open>
  Claim C6: the exclusion patterns are the pieces of the comma-separated input, trimmed,
  without the empty ones; a file entry is dropped by the filter if and only if its path
  matches at least one pattern under shell-glob semantics, for example the path
  \<open>docs/readme.md\<close> is dropped by the pattern \<open>*.md\<close> while \<open>src/app.ts\<close> is retained;
  the order of the retained entries is preserved and no entry is changed. The example
  fails: a \<open>*\<close> does not match across a \<open>/\<close>, so with the one pattern \<open>*.md\<close> the
  entry for \<open>docs/readme.md\<close> passes the filter.
\<close>

theorem star_md_keeps_docs_readme:
  "excludePatterns ((platform None [] [])\<lparr>exclude := ''*.md''\<rparr>) = [''*.md''] \<and>
   minimatch_glob ''docs/readme.md'' ''*.md'' = Some False \<and>
   filteredDiff ((platform None [] [])\<lparr>exclude := ''*.md''\<rparr>) [docs_readme_md, src_app_ts] =
     [docs_readme_md, src_app_ts]"
proof -
  have patterns: "excludePatterns ((platform None [] [])\<lparr>exclude := ''*.md''\<rparr>) = [''*.md'']"
    by (simp add: excludePatterns_def split_def trim_def is_white_def)
  have "minimatch ((platform None [] [])\<lparr>exclude := ''*.md''\<rparr>) = glob_matches"
    by (simp add: platform_fields)
  then have "filteredDiff ((platform None [] [])\<lparr>exclude := ''*.md''\<rparr>) [docs_readme_md, src_app_ts] =
     [docs_readme_md, src_app_ts]"
    by (simp add: filteredDiff_def patterns docs_readme_md_def src_app_ts_def glob_matches_examples)
  with patterns glob_examples(2) show ?thesis by (intro conjI)
qed

text \<open>
  Claim C6 as amended: the exclusion patterns are the pieces of the comma-separated input
  (joined by commas they give back the input, and no piece holds a comma), trimmed,
  without the empty ones, so that every pattern is non-empty and neither starts nor ends
  with white space; the output of the filter is the input list without the entries whose
  path, or the empty string when it has none, matches at least one pattern under the
  matcher the program is given (every other entry stays, in its place and as often as it
  occurs), so that an entry is dropped if and only if it matches, the others keep their
  order and none is changed; and under glob matching
  \<open>readme.md\<close> matches \<open>*.md\<close> and \<open>docs/readme.md\<close> matches \<open>**/*.md\<close>, while neither
  \<open>docs/readme.md\<close> nor \<open>src/app.ts\<close> matches \<open>*.md\<close>.
\<close>

theorem filter_drops_the_matched_paths:
  "join '','' (split CHR '','' (exclude rt)) = exclude rt \<and>
   (\<forall>piece \<in> set (split CHR '','' (exclude rt)). CHR '','' \<notin> set piece) \<and>
   excludePatterns rt = filter (\<lambda>p. p \<noteq> []) (map trim (split CHR '','' (exclude rt))) \<and>
   (\<forall>p \<in> set (excludePatterns rt). p \<noteq> [] \<and> \<not> is_white (hd p) \<and> \<not> is_white (last p)) \<and>
   filteredDiff rt files =
     filter (\<lambda>file. \<not> (\<exists>pattern \<in> set (excludePatterns rt).
                          minimatch rt (or_empty (to file)) pattern)) files \<and>
   (file \<in> set (filteredDiff rt files) \<longleftrightarrow>
      file \<in> set files \<and>
      \<not> (\<exists>pattern \<in> set (excludePatterns rt). minimatch rt (or_empty (to file)) pattern)) \<and>
   subseq (filteredDiff rt files) files \<and>
   minimatch_glob ''readme.md'' ''*.md'' = Some True \<and>
   minimatch_glob ''docs/readme.md'' ''**/*.md'' = Some True \<and>
   minimatch_glob ''docs/readme.md'' ''*.md'' = Some False \<and>
   minimatch_glob ''src/app.ts'' ''*.md'' = Some False"
proof -
  have patterns:
    "excludePatterns rt = filter (\<lambda>p. p \<noteq> []) (map trim (split CHR '','' (exclude rt)))"
    by (simp add: excludePatterns_def)
  have trimmed: "\<forall>p \<in> set (excludePatterns rt). p \<noteq> [] \<and> \<not> is_white (hd p) \<and> \<not> is_white (last p)"
    by (auto simp: patterns trim_ends)
  have dropped: "file \<in> set (filteredDiff rt files) \<longleftrightarrow>
      file \<in> set files \<and>
      \<not> (\<exists>pattern \<in> set (excludePatterns rt). minimatch rt (or_empty (to file)) pattern)"
    by (simp add: filteredDiff_iff list_ex_iff)
  have pieces: "\<forall>piece \<in> set (split CHR '','' (exclude rt)). CHR '','' \<notin> set piece"
    using split_pieces by blast
  from join_split [of "CHR '',''" "exclude rt"] pieces patterns trimmed
    filteredDiff_filter [of rt files] dropped
    subseq_filteredDiff [of rt files] glob_examples
  show ?thesis by (intro conjI)
qed

theorem filter_drops_the_matched_paths_witness:
  "excludePatterns (platform None [] []) = [''*.md'', ''**/*.lock''] \<and>
   readme_md \<notin> set (filteredDiff (platform None [] []) [readme_md, docs_readme_md, src_app_ts]) \<and>
   filteredDiff (platform None [] []) [readme_md, docs_readme_md, src_app_ts] =
     [docs_readme_md, src_app_ts] \<and>
   subseq [docs_readme_md, src_app_ts] [readme_md, docs_readme_md, src_app_ts]"
proof -
  have kept: "filteredDiff (platform None [] []) [readme_md, docs_readme_md, src_app_ts] =
     [docs_readme_md, src_app_ts]"
    by (simp add: filteredDiff_def excludePatterns_platform platform_fields readme_md_def
        docs_readme_md_def src_app_ts_def glob_matches_examples lock_examples)
  have matched: "\<exists>pattern \<in> set (excludePatterns (platform None [] [])).
      minimatch (platform None [] []) (or_empty (to readme_md)) pattern"
    by (simp add: excludePatterns_platform platform_fields readme_md_def glob_matches_examples)
  from filter_drops_the_matched_paths
         [of "platform None [] []" "[readme_md, docs_readme_md, src_app_ts]" readme_md] matched
  have "readme_md \<notin> set (filteredDiff (platform None [] []) [readme_md, docs_readme_md, src_app_ts])"
    and "subseq (filteredDiff (platform None [] []) [readme_md, docs_readme_md, src_app_ts])
           [readme_md, docs_readme_md, src_app_ts]"
    by blast+
  with kept excludePatterns_platform show ?thesis by simp
qed

section \<open>The annotated diff of a prompt\<close>


























end
